theory Spec2Isabelle
  imports Complex_Main "HOL-Library.Word" "HOL-Library.Signed_Division"
begin

section \<open>Host model of the build tool (Flax.Build)\<close>

text \<open>
  The build tool probes the host machine through the .NET base library: the registry,
  the file system, \<^verbatim>\<open>System.IO.Path\<close> and \<^verbatim>\<open>System.Version\<close>. None of that is code of
  the engine, so the host is a record of functions and every operation of the build tool
  takes it as an argument. A C\# \<^verbatim>\<open>string\<close> reference is a \<open>string option\<close> (\<open>None\<close> is
  \<^verbatim>\<open>null\<close>). A backslash cannot be written inside a string literal, so \<open>bsl\<close> names it.
\<close>

definition bsl :: string where
  "bsl = [CHR 0x5C]"

text \<open>What \<^verbatim>\<open>Registry.GetValue\<close> hands back is an \<^verbatim>\<open>object\<close>: a string, or a value of
  another registry type (a number, a byte array, a string array).\<close>

datatype reg_value = RegString string | RegOther

type_synonym registry = "string \<Rightarrow> string \<Rightarrow> reg_value option"

text \<open>A registry read, as it is observed from outside: key name and value name.\<close>

type_synonym probe = "string \<times> string"

text \<open>The C\# cast \<^verbatim>\<open>x as string\<close>: \<^verbatim>\<open>null\<close> unless the object is a string.\<close>

fun as_string :: "reg_value option \<Rightarrow> string option" where
  "as_string (Some (RegString s)) = Some s"
| "as_string (Some RegOther) = None"
| "as_string None = None"

fun IsNullOrEmpty :: "string option \<Rightarrow> bool" where
  "IsNullOrEmpty None = True"
| "IsNullOrEmpty (Some s) = (s = [])"

subsection \<open>Platforms and exceptions\<close>

text \<open>
  The enumeration \<^verbatim>\<open>TargetPlatform\<close> is declared outside the sources at hand: its seven
  members below are the ones the build tool names, and \<open>OtherPlatform\<close> stands for every
  other value of the underlying integer. An exception is a value of \<open>exn\<close>;
  \<open>Exception_NoRequiredSDK\<close> is the plain \<^verbatim>\<open>Exception\<close> with the message that the platform
  has no required SDK installed.
\<close>

datatype TargetPlatform =
  Windows | XboxOne | UWP | Linux | PS4 | XboxScarlett | Android | OtherPlatform int

datatype exn =
  InvalidPlatformException TargetPlatform
| ArgumentException
| ArgumentOutOfRangeException
| Exception_NoRequiredSDK TargetPlatform
| EndOfStreamException
| ArgumentNullException

subsection \<open>WindowsPlatformBase: registry probing\<close>

text \<open>
  \<^verbatim>\<open>TryReadDirRegistryKey(keyName, valueName, out value)\<close>: the result is the returned
  flag and the \<^verbatim>\<open>out\<close> parameter. The list of probes made so far is threaded through, so
  that the order of the registry reads can be stated.
\<close>

definition TryReadDirRegistryKey ::
  "registry \<Rightarrow> string \<Rightarrow> string \<Rightarrow> probe list \<Rightarrow> (bool \<times> string option) \<times> probe list" where
  "TryReadDirRegistryKey reg keyName valueName tr =
     (let value = as_string (reg keyName valueName);
          tr' = tr @ [(keyName, valueName)]
      in if IsNullOrEmpty value then ((False, None), tr') else ((True, value), tr'))"

definition TryReadInstallDirRegistryKey32 ::
  "registry \<Rightarrow> string \<Rightarrow> string \<Rightarrow> probe list \<Rightarrow> (bool \<times> string option) \<times> probe list" where
  "TryReadInstallDirRegistryKey32 reg keySuffix valueName tr =
     (case TryReadDirRegistryKey reg
             (''HKEY_CURRENT_USER'' @ bsl @ ''SOFTWARE'' @ bsl @ keySuffix) valueName tr of
        ((True, dir), tr1) \<Rightarrow> ((True, dir), tr1)
      | ((False, dir), tr1) \<Rightarrow>
     (case TryReadDirRegistryKey reg
             (''HKEY_LOCAL_MACHINE'' @ bsl @ ''SOFTWARE'' @ bsl @ keySuffix) valueName tr1 of
        ((True, dir), tr2) \<Rightarrow> ((True, dir), tr2)
      | ((False, dir), tr2) \<Rightarrow>
     (case TryReadDirRegistryKey reg
             (''HKEY_CURRENT_USER'' @ bsl @ ''SOFTWARE'' @ bsl @ ''Wow6432Node'' @ bsl @ keySuffix)
             valueName tr2 of
        ((True, dir), tr3) \<Rightarrow> ((True, dir), tr3)
      | ((False, dir), tr3) \<Rightarrow>
     (case TryReadDirRegistryKey reg
             (''HKEY_LOCAL_MACHINE'' @ bsl @ ''SOFTWARE'' @ bsl @ ''Wow6432Node'' @ bsl @ keySuffix)
             valueName tr3 of
        ((True, dir), tr4) \<Rightarrow> ((True, dir), tr4)
      | ((False, dir), tr4) \<Rightarrow> ((False, dir), tr4)))))"

text \<open>
  The locations as the specification lists them, in its order, and what it means for a
  location to hold a non-empty string.
\<close>

definition install_dir_locations :: "string \<Rightarrow> string list" where
  "install_dir_locations keySuffix =
     [''HKEY_CURRENT_USER'' @ bsl @ ''SOFTWARE'' @ bsl @ keySuffix,
      ''HKEY_LOCAL_MACHINE'' @ bsl @ ''SOFTWARE'' @ bsl @ keySuffix,
      ''HKEY_CURRENT_USER'' @ bsl @ ''SOFTWARE'' @ bsl @ ''Wow6432Node'' @ bsl @ keySuffix,
      ''HKEY_LOCAL_MACHINE'' @ bsl @ ''SOFTWARE'' @ bsl @ ''Wow6432Node'' @ bsl @ keySuffix]"

fun holds_dir :: "registry \<Rightarrow> string \<Rightarrow> string \<Rightarrow> bool" where
  "holds_dir reg valueName keyName =
     (case reg keyName valueName of
        Some (RegString s) \<Rightarrow> s \<noteq> []
      | Some RegOther \<Rightarrow> False
      | None \<Rightarrow> False)"

subsection \<open>WindowsPlatformBase: installed SDKs and toolsets\<close>

datatype WindowsPlatformToolset = Toolset_Default | Toolset_Latest | v140 | v141 | v142

datatype WindowsPlatformSDK =
  SDK_Latest | v8_1
| v10_0_10240_0 | v10_0_10586_0 | v10_0_14393_0 | v10_0_15063_0 | v10_0_16299_0
| v10_0_17134_0 | v10_0_17763_0 | v10_0_18362_0 | v10_0_19041_0

text \<open>
  \<^verbatim>\<open>System.Version\<close>: four integer components, compared component by component by
  \<^verbatim>\<open>==\<close>; a component that was not given is \<open>-1\<close>, as in \<^verbatim>\<open>new Version(8, 1)\<close>.
\<close>

record Version =
  Major :: int
  Minor :: int
  Build :: int
  Revision :: int

definition Version2 :: "int \<Rightarrow> int \<Rightarrow> Version" where
  "Version2 major minor = \<lparr>Major = major, Minor = minor, Build = -1, Revision = -1\<rparr>"

definition Version4 :: "int \<Rightarrow> int \<Rightarrow> int \<Rightarrow> int \<Rightarrow> Version" where
  "Version4 major minor build revision =
     \<lparr>Major = major, Minor = minor, Build = build, Revision = revision\<rparr>"

text \<open>
  \<^verbatim>\<open>VisualStudioVersion\<close> and \<^verbatim>\<open>VisualStudioInstance\<close> are declared elsewhere in the build
  tool; the three members named here are the ones \<^verbatim>\<open>GetToolsets\<close> compares with, and an
  instance is its version and its path.
\<close>

datatype VisualStudioVersion =
  VisualStudio2015 | VisualStudio2017 | VisualStudio2019 | VisualStudioOther nat

record host =
  Registry_GetValue :: registry
  File_Exists :: "string \<Rightarrow> bool"
  Directory_Exists :: "string \<Rightarrow> bool"
  Directory_GetDirectories :: "string \<Rightarrow> string list"
  Path_Combine :: "string list \<Rightarrow> string"
  Path_GetFileName :: "string \<Rightarrow> string"
  Version_TryParse :: "string \<Rightarrow> Version option"
  VisualStudioInstance_GetInstances :: "(VisualStudioVersion \<times> string) list"

datatype log_entry =
  Warning_UnknownWindows10SDK Version string
| Verbose_FoundWindowsSDK WindowsPlatformSDK string
| Verbose_FoundWindowsToolset WindowsPlatformToolset string

text \<open>
  A \<^verbatim>\<open>Dictionary\<close> is the list of its entries in the order they were added, with pairwise
  different keys. \<^verbatim>\<open>Add\<close> throws \<^verbatim>\<open>ArgumentException\<close> on a key that is present; the
  indexer's setter overwrites or adds. A \<^verbatim>\<open>HashSet\<close> that only grows is the list of its
  elements in the order they were added.
\<close>

definition Dictionary_Add :: "'k \<Rightarrow> 'v \<Rightarrow> ('k \<times> 'v) list \<Rightarrow> exn + ('k \<times> 'v) list" where
  "Dictionary_Add k v d =
     (if map_of d k \<noteq> None then Inl ArgumentException else Inr (d @ [(k, v)]))"

definition Dictionary_Set :: "'k \<Rightarrow> 'v \<Rightarrow> ('k \<times> 'v) list \<Rightarrow> ('k \<times> 'v) list" where
  "Dictionary_Set k v d =
     (if map_of d k \<noteq> None then map (\<lambda>(k', v'). if k' = k then (k', v) else (k', v')) d
      else d @ [(k, v)])"

definition HashSet_Add :: "'a \<Rightarrow> 'a list \<Rightarrow> 'a list" where
  "HashSet_Add x xs = (if x \<in> set xs then xs else xs @ [x])"

text \<open>
  The static fields \<^verbatim>\<open>_toolsets\<close> and \<^verbatim>\<open>_sdks\<close> of \<^verbatim>\<open>WindowsPlatformBase\<close> (\<open>None\<close> is
  \<^verbatim>\<open>null\<close>) and the log. A dictionary is mutated in place, so what an exception leaves
  behind stays in the field.
\<close>

record build_statics =
  s_toolsets :: "(WindowsPlatformToolset \<times> string) list option"
  s_sdks :: "(WindowsPlatformSDK \<times> string) list option"
  s_log :: "log_entry list"

fun GetSDKVersion :: "WindowsPlatformSDK \<Rightarrow> exn + Version" where
  "GetSDKVersion v8_1 = Inr (Version2 8 1)"
| "GetSDKVersion v10_0_10240_0 = Inr (Version4 10 0 10240 0)"
| "GetSDKVersion v10_0_10586_0 = Inr (Version4 10 0 10586 0)"
| "GetSDKVersion v10_0_14393_0 = Inr (Version4 10 0 14393 0)"
| "GetSDKVersion v10_0_15063_0 = Inr (Version4 10 0 15063 0)"
| "GetSDKVersion v10_0_16299_0 = Inr (Version4 10 0 16299 0)"
| "GetSDKVersion v10_0_17134_0 = Inr (Version4 10 0 17134 0)"
| "GetSDKVersion v10_0_17763_0 = Inr (Version4 10 0 17763 0)"
| "GetSDKVersion v10_0_18362_0 = Inr (Version4 10 0 18362 0)"
| "GetSDKVersion v10_0_19041_0 = Inr (Version4 10 0 19041 0)"
| "GetSDKVersion SDK_Latest = Inl ArgumentOutOfRangeException"

text \<open>The body of the inner loop of \<^verbatim>\<open>GetSDKs\<close> once the directory name has parsed and
  \<^verbatim>\<open>um/windows.h\<close> exists: the chain of comparisons with the nine versions.\<close>

definition add_sdk ::
  "WindowsPlatformSDK \<Rightarrow> string \<Rightarrow> (WindowsPlatformSDK \<times> string) list \<Rightarrow> log_entry list
     \<Rightarrow> exn option \<times> (WindowsPlatformSDK \<times> string) list \<times> log_entry list" where
  "add_sdk k sdk10 d lg =
     (case Dictionary_Add k sdk10 d of Inl e \<Rightarrow> (Some e, d, lg) | Inr d' \<Rightarrow> (None, d', lg))"

definition register_sdk10 ::
  "Version \<Rightarrow> string \<Rightarrow> (WindowsPlatformSDK \<times> string) list \<Rightarrow> log_entry list
     \<Rightarrow> exn option \<times> (WindowsPlatformSDK \<times> string) list \<times> log_entry list" where
  "register_sdk10 version sdk10 d lg =
     (if Inr version = GetSDKVersion v10_0_10240_0 then add_sdk v10_0_10240_0 sdk10 d lg
      else if Inr version = GetSDKVersion v10_0_10586_0 then add_sdk v10_0_10586_0 sdk10 d lg
      else if Inr version = GetSDKVersion v10_0_14393_0 then add_sdk v10_0_14393_0 sdk10 d lg
      else if Inr version = GetSDKVersion v10_0_15063_0 then add_sdk v10_0_15063_0 sdk10 d lg
      else if Inr version = GetSDKVersion v10_0_16299_0 then add_sdk v10_0_16299_0 sdk10 d lg
      else if Inr version = GetSDKVersion v10_0_17134_0 then add_sdk v10_0_17134_0 sdk10 d lg
      else if Inr version = GetSDKVersion v10_0_17763_0 then add_sdk v10_0_17763_0 sdk10 d lg
      else if Inr version = GetSDKVersion v10_0_18362_0 then add_sdk v10_0_18362_0 sdk10 d lg
      else if Inr version = GetSDKVersion v10_0_19041_0 then add_sdk v10_0_19041_0 sdk10 d lg
      else (None, d, lg @ [Warning_UnknownWindows10SDK version sdk10]))"

text \<open>The loop over the sub-directories of one \<^verbatim>\<open>Include\<close> directory; an exception ends it.\<close>

fun sdk10_include_loop ::
  "host \<Rightarrow> string \<Rightarrow> string list \<Rightarrow> (WindowsPlatformSDK \<times> string) list \<Rightarrow> log_entry list
     \<Rightarrow> exn option \<times> (WindowsPlatformSDK \<times> string) list \<times> log_entry list" where
  "sdk10_include_loop h sdk10 [] d lg = (None, d, lg)"
| "sdk10_include_loop h sdk10 (includeDir # rest) d lg =
     (case Version_TryParse h (Path_GetFileName h includeDir) of
        None \<Rightarrow> sdk10_include_loop h sdk10 rest d lg
      | Some version \<Rightarrow>
          if File_Exists h (Path_Combine h [includeDir, ''um'', ''windows.h'']) then
            (case register_sdk10 version sdk10 d lg of
               (Some e, d', lg') \<Rightarrow> (Some e, d', lg')
             | (None, d', lg') \<Rightarrow> sdk10_include_loop h sdk10 rest d' lg')
          else sdk10_include_loop h sdk10 rest d lg)"

text \<open>The loop over the Windows 10 SDK roots.\<close>

fun sdk10_roots_loop ::
  "host \<Rightarrow> string list \<Rightarrow> (WindowsPlatformSDK \<times> string) list \<Rightarrow> log_entry list
     \<Rightarrow> exn option \<times> (WindowsPlatformSDK \<times> string) list \<times> log_entry list" where
  "sdk10_roots_loop h [] d lg = (None, d, lg)"
| "sdk10_roots_loop h (sdk10 # rest) d lg =
     (let includeRootDir = Path_Combine h [sdk10, ''Include'']
      in if Directory_Exists h includeRootDir then
           (case sdk10_include_loop h sdk10 (Directory_GetDirectories h includeRootDir) d lg of
              (Some e, d', lg') \<Rightarrow> (Some e, d', lg')
            | (None, d', lg') \<Rightarrow> sdk10_roots_loop h rest d' lg')
         else sdk10_roots_loop h rest d lg)"

definition sdk81_key :: string where
  "sdk81_key = ''Microsoft'' @ bsl @ ''Microsoft SDKs'' @ bsl @ ''Windows'' @ bsl @ ''v8.1''"

definition kits_roots_key :: string where
  "kits_roots_key = ''Microsoft'' @ bsl @ ''Windows Kits'' @ bsl @ ''Installed Roots''"

definition sdk10_key :: string where
  "sdk10_key = ''Microsoft'' @ bsl @ ''Microsoft SDKs'' @ bsl @ ''Windows'' @ bsl @ ''v10.0''"

text \<open>The registry read of \<^verbatim>\<open>GetSDKs\<close>, without the list of probes.\<close>

definition read_install_dir :: "host \<Rightarrow> string \<Rightarrow> string \<Rightarrow> bool \<times> string option" where
  "read_install_dir h keySuffix valueName =
     fst (TryReadInstallDirRegistryKey32 (Registry_GetValue h) keySuffix valueName [])"

definition sdk10Roots :: "host \<Rightarrow> string list" where
  "sdk10Roots h =
     (let roots = [];
          roots = (case read_install_dir h kits_roots_key ''KitsRoot10'' of
                     (True, Some rootDir) \<Rightarrow> HashSet_Add rootDir roots
                   | _ \<Rightarrow> roots);
          roots = (case read_install_dir h sdk10_key ''InstallationFolder'' of
                     (True, Some rootDir) \<Rightarrow> HashSet_Add rootDir roots
                   | _ \<Rightarrow> roots)
      in roots)"

definition check_sdk81 :: "host \<Rightarrow> (WindowsPlatformSDK \<times> string) list \<Rightarrow> log_entry list
     \<Rightarrow> exn option \<times> (WindowsPlatformSDK \<times> string) list \<times> log_entry list" where
  "check_sdk81 h d lg =
     (case read_install_dir h sdk81_key ''InstallationFolder'' of
        (True, Some sdk81) \<Rightarrow>
          if File_Exists h (Path_Combine h [sdk81, ''Include'', ''um'', ''windows.h''])
          then add_sdk v8_1 sdk81 d lg
          else (None, d, lg)
      | _ \<Rightarrow> (None, d, lg))"

definition GetSDKs ::
  "host \<Rightarrow> build_statics \<Rightarrow> (exn + (WindowsPlatformSDK \<times> string) list) \<times> build_statics" where
  "GetSDKs h st =
     (case s_sdks st of
        Some d \<Rightarrow> (Inr d, st)
      | None \<Rightarrow>
          (case check_sdk81 h [] (s_log st) of
             (Some e, d, lg) \<Rightarrow> (Inl e, st\<lparr>s_sdks := Some d, s_log := lg\<rparr>)
           | (None, d, lg) \<Rightarrow>
          (case sdk10_roots_loop h (sdk10Roots h) d lg of
             (Some e, d, lg) \<Rightarrow> (Inl e, st\<lparr>s_sdks := Some d, s_log := lg\<rparr>)
           | (None, d, lg) \<Rightarrow>
               (Inr d, st\<lparr>s_sdks := Some d,
                          s_log := lg @ map (\<lambda>(k, v). Verbose_FoundWindowsSDK k v) d\<rparr>))))"







text \<open>
  Two hosts to run the search on. On \<open>host_sdk\<close> the registry names an 8.1 SDK under
  HKLM and a Windows 10 kits root under the Wow6432Node of HKLM; the root holds the
  include directories of a known version, of an unknown version with \<^verbatim>\<open>windows.h\<close> and of
  a name that is no version. On \<open>host_bare\<close> the only include directory has an unknown
  version and no \<^verbatim>\<open>windows.h\<close>. Paths are joined with a slash and a file name is what
  follows the last slash.
\<close>

definition join_path :: "string list \<Rightarrow> string" where
  "join_path ps = (case ps of [] \<Rightarrow> [] | p # qs \<Rightarrow> p @ concat (map (\<lambda>q. ''/'' @ q) qs))"

definition file_name :: "string \<Rightarrow> string" where
  "file_name p = rev (takeWhile (\<lambda>c. c \<noteq> CHR ''/'') (rev p))"

definition parse_version :: "string \<Rightarrow> Version option" where
  "parse_version s =
     (if s = ''10.0.19041.0'' then Some (Version4 10 0 19041 0)
      else if s = ''10.0.1.0'' then Some (Version4 10 0 1 0)
      else None)"

definition host_sdk :: host where
  "host_sdk =
     \<lparr>Registry_GetValue = (\<lambda>k v.
        if k = ''HKEY_LOCAL_MACHINE'' @ bsl @ ''SOFTWARE'' @ bsl @ sdk81_key
             \<and> v = ''InstallationFolder'' then Some (RegString ''W'')
        else if k = ''HKEY_LOCAL_MACHINE'' @ bsl @ ''SOFTWARE'' @ bsl @ ''Wow6432Node'' @ bsl
                      @ kits_roots_key \<and> v = ''KitsRoot10'' then Some (RegString ''K'')
        else None),
      File_Exists = (\<lambda>p. p \<in> {''W/Include/um/windows.h'', ''K/Include/10.0.19041.0/um/windows.h'',
                              ''K/Include/10.0.1.0/um/windows.h''}),
      Directory_Exists = (\<lambda>p. p = ''K/Include''),
      Directory_GetDirectories = (\<lambda>p.
        if p = ''K/Include''
        then [''K/Include/10.0.19041.0'', ''K/Include/10.0.1.0'', ''K/Include/wdf'']
        else []),
      Path_Combine = join_path,
      Path_GetFileName = file_name,
      Version_TryParse = parse_version,
      VisualStudioInstance_GetInstances = []\<rparr>"


definition fresh_statics :: build_statics where
  "fresh_statics = \<lparr>s_toolsets = None, s_sdks = None, s_log = []\<rparr>"

subsection \<open>WindowsPlatformBase: toolsets and the constructor\<close>

text \<open>
  \<^verbatim>\<open>FindMsvcToolsets\<close> and \<^verbatim>\<open>GetToolsets\<close>. The division \<^verbatim>\<open>version.Minor / 10\<close> of C\#
  truncates towards zero, which is \<open>sdiv\<close>. \<^verbatim>\<open>FirstOrDefault\<close> is \<open>find\<close> and
  \<^verbatim>\<open>Where\<close> is \<open>filter\<close>.
\<close>

fun FindMsvcToolsets_loop ::
  "host \<Rightarrow> string list \<Rightarrow> (WindowsPlatformToolset \<times> string) list
     \<Rightarrow> (WindowsPlatformToolset \<times> string) list" where
  "FindMsvcToolsets_loop h [] d = d"
| "FindMsvcToolsets_loop h (toolset # rest) d =
     (case Version_TryParse h (Path_GetFileName h toolset) of
        None \<Rightarrow> FindMsvcToolsets_loop h rest d
      | Some version \<Rightarrow>
          if File_Exists h (Path_Combine h [toolset, ''bin'', ''Hostx64'', ''x64'', ''cl.exe''])
             \<or> File_Exists h (Path_Combine h [toolset, ''bin'', ''Hostx86'', ''x64'', ''cl.exe''])
          then
            (if Major version = 14 \<and> Minor version sdiv 10 = 1
             then FindMsvcToolsets_loop h rest (Dictionary_Set v141 toolset d)
             else if Major version = 14 \<and> Minor version sdiv 10 = 2
             then FindMsvcToolsets_loop h rest (Dictionary_Set v142 toolset d)
             else FindMsvcToolsets_loop h rest d)
          else FindMsvcToolsets_loop h rest d)"

definition FindMsvcToolsets ::
  "host \<Rightarrow> string \<Rightarrow> (WindowsPlatformToolset \<times> string) list
     \<Rightarrow> (WindowsPlatformToolset \<times> string) list" where
  "FindMsvcToolsets h rootDir d =
     (if \<not> Directory_Exists h rootDir then d
      else FindMsvcToolsets_loop h (Directory_GetDirectories h rootDir) d)"

definition GetToolsets ::
  "host \<Rightarrow> build_statics \<Rightarrow> (WindowsPlatformToolset \<times> string) list \<times> build_statics" where
  "GetToolsets h st =
     (case s_toolsets st of
        Some d \<Rightarrow> (d, st)
      | None \<Rightarrow>
          (let vsInstances = VisualStudioInstance_GetInstances h;
               d = [];
               d = (case List.find (\<lambda>x. fst x = VisualStudio2015) vsInstances of
                      None \<Rightarrow> d
                    | Some vs2015 \<Rightarrow>
                        (let rootDir = Path_Combine h [snd vs2015, ''VC'']
                         in if Directory_Exists h rootDir \<and>
                               (File_Exists h (Path_Combine h [rootDir, ''bin'', ''amd64'', ''cl.exe''])
                                \<or> File_Exists h
                                     (Path_Combine h [rootDir, ''bin'', ''x86_amd64'', ''cl.exe'']))
                            then Dictionary_Set v140 rootDir d else d));
               d = foldl (\<lambda>d vs2017.
                            FindMsvcToolsets h (Path_Combine h [snd vs2017, ''VC'', ''Tools'', ''MSVC'']) d)
                     d (filter (\<lambda>x. fst x = VisualStudio2017) vsInstances);
               d = foldl (\<lambda>d vs2019.
                            FindMsvcToolsets h (Path_Combine h [snd vs2019, ''VC'', ''Tools'', ''MSVC'']) d)
                     d (filter (\<lambda>x. fst x = VisualStudio2019) vsInstances)
           in (d, st\<lparr>s_toolsets := Some d,
                      s_log := s_log st @ map (\<lambda>(k, v). Verbose_FoundWindowsToolset k v) d\<rparr>)))"

text \<open>
  The constructor of \<^verbatim>\<open>WindowsPlatformBase\<close>: the result is the value it stores in
  \<^verbatim>\<open>_hasRequiredSDKsInstalled\<close>, or the exception that \<^verbatim>\<open>GetSDKs\<close> has thrown.
\<close>

definition WindowsPlatformBase_ctor :: "host \<Rightarrow> build_statics \<Rightarrow> (exn + bool) \<times> build_statics" where
  "WindowsPlatformBase_ctor h st =
     (case GetSDKs h st of
        (Inl e, st1) \<Rightarrow> (Inl e, st1)
      | (Inr sdsk, st1) \<Rightarrow>
          (case GetToolsets h st1 of
             (toolsets, st2) \<Rightarrow> (Inr (length sdsk > 0 \<and> length toolsets > 0), st2)))"

subsection \<open>Platform: the toolchain cache\<close>

text \<open>
  \<^verbatim>\<open>Platform.GetToolchain\<close>. A platform object is the value of its abstract properties
  \<^verbatim>\<open>Target\<close> and \<^verbatim>\<open>HasRequiredSDKsInstalled\<close> and its field \<^verbatim>\<open>_toolchains\<close>. The abstract
  \<^verbatim>\<open>CreateToolchain\<close> is a parameter: it makes a toolchain object, named by a reference
  \<open>'tc\<close>, and may change the rest of the program state \<open>'w\<close>. The architecture type is
  declared elsewhere and is the type variable \<open>'arch\<close>.
\<close>

record ('arch, 'tc) Platform =
  Target :: TargetPlatform
  HasRequiredSDKsInstalled :: bool
  toolchains :: "('arch \<times> 'tc) list option"

definition GetToolchain ::
  "('arch \<Rightarrow> 'w \<Rightarrow> 'tc \<times> 'w) \<Rightarrow> 'arch \<Rightarrow> ('arch, 'tc) Platform \<times> 'w
     \<Rightarrow> (exn + 'tc) \<times> ('arch, 'tc) Platform \<times> 'w" where
  "GetToolchain CreateToolchain targetArchitecture s =
     (case s of (p, w) \<Rightarrow>
        if \<not> HasRequiredSDKsInstalled p then (Inl (Exception_NoRequiredSDK (Target p)), p, w)
        else
          (let d = (case toolchains p of None \<Rightarrow> [] | Some d \<Rightarrow> d);
               p = p\<lparr>toolchains := Some d\<rparr>;
               key = targetArchitecture
           in case map_of d key of
                Some toolchain \<Rightarrow> (Inr toolchain, p, w)
              | None \<Rightarrow>
                  (case CreateToolchain targetArchitecture w of
                     (toolchain, w') \<Rightarrow>
                       (case Dictionary_Add key toolchain d of
                          Inl e \<Rightarrow> (Inl e, p, w')
                        | Inr d' \<Rightarrow> (Inr toolchain, p\<lparr>toolchains := Some d'\<rparr>, w')))))"

text \<open>
  A host with one Visual Studio 2019 instance, whose toolset 14.29 has the 64-bit
  compiler, on top of the SDKs of \<open>host_sdk\<close>; and a toolchain factory that numbers the
  objects it makes.
\<close>

definition parse_toolset_version :: "string \<Rightarrow> Version option" where
  "parse_toolset_version s =
     (if s = ''14.29.30133'' then Some \<lparr>Major = 14, Minor = 29, Build = 30133, Revision = -1\<rparr>
      else parse_version s)"

definition host_dev :: host where
  "host_dev = host_sdk
     \<lparr>File_Exists := (\<lambda>p. File_Exists host_sdk p
                          \<or> p = ''V/VC/Tools/MSVC/14.29.30133/bin/Hostx64/x64/cl.exe''),
      Directory_Exists := (\<lambda>p. Directory_Exists host_sdk p \<or> p = ''V/VC/Tools/MSVC''),
      Directory_GetDirectories := (\<lambda>p.
         if p = ''V/VC/Tools/MSVC'' then [''V/VC/Tools/MSVC/14.29.30133'']
         else Directory_GetDirectories host_sdk p),
      Version_TryParse := parse_toolset_version,
      VisualStudioInstance_GetInstances := [(VisualStudio2019, ''V'')]\<rparr>"

definition numbered_toolchain :: "string \<Rightarrow> nat \<Rightarrow> nat \<times> nat" where
  "numbered_toolchain arch n = (n, n + 1)"

section \<open>Build rules of the texture tool\<close>

text \<open>
  \<^verbatim>\<open>TextureTool.Setup\<close>. Of \<^verbatim>\<open>BuildOptions\<close> the fields that \<^verbatim>\<open>Setup\<close> touches are kept
  (\<open>Platform_Target\<close> is \<^verbatim>\<open>options.Platform.Target\<close>). \<^verbatim>\<open>EngineModule.Setup\<close> (the base
  call) and \<^verbatim>\<open>Path.Combine\<close> (\<open>PathCombine\<close>) are parameters. An exception leaves the options as mutated so
  far, so the error result carries them.
\<close>

record BuildOptions =
  Platform_Target :: TargetPlatform
  SourcePaths :: "string list"
  SourceFiles :: "string list"
  PrivateDependencies :: "string list"
  PublicDefinitions :: "string list"

definition TextureTool_Setup ::
  "(string list \<Rightarrow> string) \<Rightarrow> (BuildOptions \<Rightarrow> BuildOptions) \<Rightarrow> string \<Rightarrow> BuildOptions
     \<Rightarrow> (exn \<times> BuildOptions) + BuildOptions" where
  "TextureTool_Setup PathCombine base_Setup FolderPath options0 =
     (let options = base_Setup options0;
          options = options\<lparr>SourcePaths := []\<rparr>;
          options = options\<lparr>SourceFiles :=
                      SourceFiles options @ [PathCombine [FolderPath, ''TextureTool.cpp'']]\<rparr>;
          options = options\<lparr>SourceFiles :=
                      SourceFiles options @ [PathCombine [FolderPath, ''TextureTool.h'']]\<rparr>;
          useDirectXTex = False;
          useStb = False
      in case (case Platform_Target options of
                 Windows \<Rightarrow> Inr (True, useStb)
               | UWP \<Rightarrow> Inr (True, useStb)
               | XboxOne \<Rightarrow> Inr (True, useStb)
               | XboxScarlett \<Rightarrow> Inr (True, useStb)
               | Linux \<Rightarrow> Inr (useDirectXTex, True)
               | PS4 \<Rightarrow> Inr (useDirectXTex, True)
               | Android \<Rightarrow> Inr (useDirectXTex, True)
               | OtherPlatform n \<Rightarrow> Inl (InvalidPlatformException (OtherPlatform n))) of
           Inl e \<Rightarrow> Inl (e, options)
         | Inr (useDirectXTex, useStb) \<Rightarrow>
             (let options =
                    (if useDirectXTex then
                       options\<lparr>PrivateDependencies := PrivateDependencies options @ [''DirectXTex''],
                               SourceFiles := SourceFiles options
                                 @ [PathCombine [FolderPath, ''TextureTool.DirectXTex.cpp'']]\<rparr>
                     else options);
                  options =
                    (if useStb then
                       options\<lparr>PrivateDependencies := PrivateDependencies options @ [''stb''],
                               SourceFiles := SourceFiles options
                                 @ [PathCombine [FolderPath, ''TextureTool.stb.cpp'']]\<rparr>
                     else options)
              in Inr (options\<lparr>PublicDefinitions :=
                        List.insert ''COMPILE_WITH_TEXTURE_TOOL'' (PublicDefinitions options)\<rparr>)))"

text \<open>The codec the specification assigns to a platform, if any.\<close>

fun texture_codec :: "TargetPlatform \<Rightarrow> (string \<times> string) option" where
  "texture_codec Windows = Some (''DirectXTex'', ''TextureTool.DirectXTex.cpp'')"
| "texture_codec UWP = Some (''DirectXTex'', ''TextureTool.DirectXTex.cpp'')"
| "texture_codec XboxOne = Some (''DirectXTex'', ''TextureTool.DirectXTex.cpp'')"
| "texture_codec XboxScarlett = Some (''DirectXTex'', ''TextureTool.DirectXTex.cpp'')"
| "texture_codec Linux = Some (''stb'', ''TextureTool.stb.cpp'')"
| "texture_codec PS4 = Some (''stb'', ''TextureTool.stb.cpp'')"
| "texture_codec Android = Some (''stb'', ''TextureTool.stb.cpp'')"
| "texture_codec (OtherPlatform n) = None"

section \<open>Model import tool: bounding box of a level of detail\<close>

text \<open>
  \<^verbatim>\<open>ImportedModelData::LOD::GetBox\<close>. The bounding box type, \<^verbatim>\<open>BoundingBox::Empty\<close>,
  \<^verbatim>\<open>BoundingBox::Merge\<close> and \<^verbatim>\<open>MeshData::CalculateBox\<close> are declared elsewhere in the
  engine; they are the parameters \<open>Empty\<close>, \<open>Merge\<close> and \<open>CalculateBox\<close>
  (\<^verbatim>\<open>CalculateBox\<close> and \<^verbatim>\<open>Merge\<close> hand their result back through a reference argument;
  here it is the value of the function). Of a mesh only the \<^verbatim>\<open>Positions\<close> array is read
  here. The counter \<^verbatim>\<open>i\<close> stays below \<^verbatim>\<open>Meshes.Count()\<close>, an
  \<^verbatim>\<open>int32\<close>, so it never wraps and is a natural number.
\<close>

record 'v MeshData =
  Positions :: "'v list"

definition HasItems :: "'a list \<Rightarrow> bool" where
  "HasItems xs = (xs \<noteq> [])"

function GetBox_loop ::
  "('v MeshData \<Rightarrow> 'box) \<Rightarrow> ('box \<Rightarrow> 'box \<Rightarrow> 'box) \<Rightarrow> 'v MeshData list \<Rightarrow> nat \<Rightarrow> 'box \<Rightarrow> 'box" where
  "GetBox_loop CalculateBox Merge Meshes i box =
     (if i < length Meshes then
        (if HasItems (Positions (Meshes ! i))
         then GetBox_loop CalculateBox Merge Meshes (i + 1)
                (Merge box (CalculateBox (Meshes ! i)))
         else GetBox_loop CalculateBox Merge Meshes (i + 1) box)
      else box)"
  by pat_completeness auto
termination
  by (relation "measure (\<lambda>(cb, mg, ms, i, b). length ms - i)") auto

declare GetBox_loop.simps [simp del]

definition GetBox ::
  "'box \<Rightarrow> ('v MeshData \<Rightarrow> 'box) \<Rightarrow> ('box \<Rightarrow> 'box \<Rightarrow> 'box) \<Rightarrow> 'v MeshData list \<Rightarrow> 'box" where
  "GetBox Empty CalculateBox Merge Meshes =
     (if Meshes = [] then Empty
      else GetBox_loop CalculateBox Merge Meshes 1 (CalculateBox (Meshes ! 0)))"

section \<open>Editor cache file\<close>

















section \<open>Volumetric fog shaders\<close>

text \<open>
  The HLSL of the volumetric fog. A \<^verbatim>\<open>float\<close> is a finite value (the real number it
  denotes), an infinity or a NaN; comparison, \<^verbatim>\<open>isnan\<close>, \<^verbatim>\<open>isinf\<close> and \<^verbatim>\<open>max\<close> are
  exact on these and are defined here as the shader language defines them (a comparison
  with a NaN is false; \<^verbatim>\<open>max\<close> of a NaN and a number is the number). Rounding arithmetic
  is not defined: where a pass adds, multiplies, samples a texture or calls into the
  included shader files, the operation is a parameter. A \<^verbatim>\<open>uint\<close> is a 32-bit word; an
  \<^verbatim>\<open>int\<close> compared with a \<^verbatim>\<open>uint\<close> is converted to \<^verbatim>\<open>uint\<close>, so \<^verbatim>\<open>GridSizeInt\<close> is kept as
  the words of its components and \<open><\<close> on words is the shader's comparison.
\<close>

datatype float = Finite real | PosInf | NegInf | NaN

datatype 'a vec3 = Vec3 'a 'a 'a

datatype 'a vec4 = Vec4 'a 'a 'a 'a

type_synonym uint = "32 word"

fun flt :: "float \<Rightarrow> float \<Rightarrow> bool" where
  "flt NaN _ = False"
| "flt _ NaN = False"
| "flt (Finite a) (Finite b) = (a < b)"
| "flt (Finite a) PosInf = True"
| "flt (Finite a) NegInf = False"
| "flt PosInf _ = False"
| "flt NegInf (Finite b) = True"
| "flt NegInf PosInf = True"
| "flt NegInf NegInf = False"

fun isnan :: "float \<Rightarrow> bool" where
  "isnan NaN = True"
| "isnan _ = False"

fun isinf :: "float \<Rightarrow> bool" where
  "isinf PosInf = True"
| "isinf NegInf = True"
| "isinf _ = False"

fun fmax :: "float \<Rightarrow> float \<Rightarrow> float" where
  "fmax NaN b = b"
| "fmax a NaN = a"
| "fmax a b = (if flt a b then b else a)"

fun any3 :: "bool vec3 \<Rightarrow> bool" where
  "any3 (Vec3 a b c) = (a \<or> b \<or> c)"

fun all3 :: "bool vec3 \<Rightarrow> bool" where
  "all3 (Vec3 a b c) = (a \<and> b \<and> c)"

fun less3 :: "uint vec3 \<Rightarrow> uint vec3 \<Rightarrow> bool vec3" where
  "less3 (Vec3 a b c) (Vec3 a' b' c') = Vec3 (a < a') (b < b') (c < c')"

text \<open>The literal \<^verbatim>\<open>0.001f\<close> is the float \<open>8589935 / 2^33\<close>.\<close>

definition lit_0_001 :: float where
  "lit_0_001 = Finite (8589935 / 2 ^ 33)"

text \<open>
  The constant buffer fields that the passes below read, and the parts of the passes
  that rest on the included shader files, on textures and on float arithmetic:
  \<^item> \<open>history_uv g\<close> is
    \<^verbatim>\<open>ComputeVolumeUV(ComputeCellWorldPosition(g, 0.5f), PrevWorldToClip)\<close>;
  \<^item> \<open>cs_sample g i\<close> and \<open>ps_sample g i\<close> are the bodies of the super-sampling loops for
    the sample index \<open>i\<close> (they read \<^verbatim>\<open>FrameJitterOffsets[i]\<close>), as functions on the
    accumulated value;
  \<^item> \<open>cs_normalize\<close> and \<open>ps_normalize\<close> are the divisions by \<^verbatim>\<open>(float)numSuperSamples\<close>;
  \<^item> \<open>cs_material g\<close> adds the local lights and applies the material of the voxel, giving
    \<^verbatim>\<open>scatteringAndExtinction\<close>;
  \<^item> \<open>history_sample\<close> is \<^verbatim>\<open>LightScatteringHistory.SampleLevel(SamplerLinearClamp, uv, 0)\<close>
    and \<open>lerp\<close> is the intrinsic.
\<close>

record fog =
  GridSizeInt :: "uint vec3"
  HistoryWeight :: float
  HistoryMissSuperSampleCount :: uint
  history_uv :: "uint vec3 \<Rightarrow> float vec3"
  cs_sample :: "uint vec3 \<Rightarrow> uint \<Rightarrow> float vec3 \<Rightarrow> float vec3"
  cs_normalize :: "float vec3 \<Rightarrow> uint \<Rightarrow> float vec3"
  cs_material :: "uint vec3 \<Rightarrow> float vec3 \<Rightarrow> float vec4"
  history_sample :: "float vec3 \<Rightarrow> float vec4"
  lerp :: "float vec4 \<Rightarrow> float vec4 \<Rightarrow> float \<Rightarrow> float vec4"
  ps_sample :: "uint vec3 \<Rightarrow> uint \<Rightarrow> float vec4 \<Rightarrow> float vec4"
  ps_normalize :: "float vec4 \<Rightarrow> uint \<Rightarrow> float vec4"

text \<open>
  \<^verbatim>\<open>for (uint sampleIndex = 0; sampleIndex < numSuperSamples; sampleIndex++)\<close>: the
  accumulated value and the list of the sample indices taken so far.
\<close>

function sample_loop ::
  "(uint \<Rightarrow> 'a \<Rightarrow> 'a) \<Rightarrow> uint \<Rightarrow> uint \<Rightarrow> 'a \<times> uint list \<Rightarrow> 'a \<times> uint list" where
  "sample_loop body numSuperSamples sampleIndex s =
     (if sampleIndex < numSuperSamples
      then sample_loop body numSuperSamples (sampleIndex + 1)
             (body sampleIndex (fst s), snd s @ [sampleIndex])
      else s)"
  by pat_completeness auto
termination
proof (relation "measure (\<lambda>(body, n, i, s). unat n - unat i)")
  show "wf (measure (\<lambda>(body, n, i, s). unat n - unat i))"
    by simp
next
  fix body :: "uint \<Rightarrow> 'a \<Rightarrow> 'a" and numSuperSamples sampleIndex :: uint and s :: "'a \<times> uint list"
  assume "sampleIndex < numSuperSamples"
  then have lt: "unat sampleIndex < unat numSuperSamples"
    by (simp add: word_less_nat_alt)
  have "unat numSuperSamples < 2 ^ LENGTH(32)"
    by (rule unsigned_less)
  with lt have "unat sampleIndex + unat (1 :: uint) < 2 ^ LENGTH(32)"
    by simp
  then have "unat (sampleIndex + 1) = unat sampleIndex + unat (1 :: uint)"
    by (simp only: unat_add_lem)
  then have "unat (sampleIndex + 1) = unat sampleIndex + 1"
    by simp
  with lt show "((body, numSuperSamples, sampleIndex + 1,
               body sampleIndex (fst s), snd s @ [sampleIndex]),
              (body, numSuperSamples, sampleIndex, s))
             \<in> measure (\<lambda>(body, n, i, s). unat n - unat i)"
    by simp
qed

declare sample_loop.simps [simp del]

text \<open>
  The prologue of \<^verbatim>\<open>CS_LightScattering\<close> and \<^verbatim>\<open>PS_InjectLight\<close> under
  \<^verbatim>\<open>USE_TEMPORAL_REPROJECTION\<close>: the value of \<^verbatim>\<open>historyAlpha\<close> after the \<^verbatim>\<open>if\<close>.
\<close>

definition history_alpha :: "fog \<Rightarrow> uint vec3 \<Rightarrow> float" where
  "history_alpha e gridCoordinate =
     (let historyUV = history_uv e gridCoordinate;
          historyAlpha = HistoryWeight e
      in if any3 (map_vec3 (\<lambda>c. flt c (Finite 0)) historyUV)
            \<or> any3 (map_vec3 (\<lambda>c. flt (Finite 1) c) historyUV)
         then Finite 0
         else historyAlpha)"

text \<open>
  \<^verbatim>\<open>CS_LightScattering\<close>, in three pieces: the number of samples, the value of
  \<^verbatim>\<open>scatteringAndExtinction\<close> before the store (with the sample indices the loop took), and
  the store to \<^verbatim>\<open>RWLightScattering\<close>. The flag is the permutation
  \<^verbatim>\<open>USE_TEMPORAL_REPROJECTION\<close>.
\<close>

definition CS_numSuperSamples :: "bool \<Rightarrow> fog \<Rightarrow> uint vec3 \<Rightarrow> uint" where
  "CS_numSuperSamples USE_TEMPORAL_REPROJECTION e gridCoordinate =
     (if USE_TEMPORAL_REPROJECTION then
        (if flt (history_alpha e gridCoordinate) lit_0_001
            \<and> all3 (less3 gridCoordinate (GridSizeInt e))
         then HistoryMissSuperSampleCount e else 1)
      else 1)"

definition CS_scatteringAndExtinction :: "bool \<Rightarrow> fog \<Rightarrow> uint vec3 \<Rightarrow> float vec4 \<times> uint list" where
  "CS_scatteringAndExtinction USE_TEMPORAL_REPROJECTION e gridCoordinate =
     (let numSuperSamples = CS_numSuperSamples USE_TEMPORAL_REPROJECTION e gridCoordinate
      in case sample_loop (cs_sample e gridCoordinate) numSuperSamples 0
                (Vec3 (Finite 0) (Finite 0) (Finite 0), []) of
           (lightScattering, samples) \<Rightarrow>
             (let lightScattering = cs_normalize e lightScattering numSuperSamples;
                  scatteringAndExtinction = cs_material e gridCoordinate lightScattering;
                  scatteringAndExtinction =
                    (if USE_TEMPORAL_REPROJECTION
                        \<and> flt (Finite 0) (history_alpha e gridCoordinate)
                     then lerp e scatteringAndExtinction
                            (history_sample e (history_uv e gridCoordinate))
                            (history_alpha e gridCoordinate)
                     else scatteringAndExtinction)
              in (scatteringAndExtinction, samples)))"

definition CS_LightScattering ::
  "bool \<Rightarrow> fog \<Rightarrow> uint vec3 \<Rightarrow> (uint vec3 \<times> float vec4) option \<times> uint list" where
  "CS_LightScattering USE_TEMPORAL_REPROJECTION e gridCoordinate =
     (case CS_scatteringAndExtinction USE_TEMPORAL_REPROJECTION e gridCoordinate of
        (scatteringAndExtinction, samples) \<Rightarrow>
          if all3 (less3 gridCoordinate (GridSizeInt e)) then
            (let scatteringAndExtinction =
                   map_vec4 (\<lambda>c. if isnan c \<or> isinf c then Finite 0 else c)
                     scatteringAndExtinction
             in (Some (gridCoordinate, map_vec4 (\<lambda>c. fmax c (Finite 0)) scatteringAndExtinction),
                 samples))
          else (None, samples))"

text \<open>\<^verbatim>\<open>PS_InjectLight\<close>: the colour returned and the sample indices taken.\<close>

definition PS_InjectLight :: "bool \<Rightarrow> fog \<Rightarrow> uint vec3 \<Rightarrow> float vec4 \<times> uint list" where
  "PS_InjectLight USE_TEMPORAL_REPROJECTION e gridCoordinate =
     (if \<not> all3 (less3 gridCoordinate (GridSizeInt e))
      then (Vec4 (Finite 0) (Finite 0) (Finite 0) (Finite 0), [])
      else
        (let numSuperSamples =
               (if USE_TEMPORAL_REPROJECTION then
                  (if flt (history_alpha e gridCoordinate) lit_0_001
                   then HistoryMissSuperSampleCount e else 1)
                else 1)
         in case sample_loop (ps_sample e gridCoordinate) numSuperSamples 0
                   (Vec4 (Finite 0) (Finite 0) (Finite 0) (Finite 0), []) of
              (scattering, samples) \<Rightarrow> (ps_normalize e scattering numSuperSamples, samples)))"

text \<open>
  A frame to run the passes on: a grid of 4 by 4 by 2 voxels, four samples on a history
  miss, a history UV that leaves the view to the left for voxels with \<open>x = 0\<close>, a loop
  body that counts in the first component, and a material that yields a NaN, an
  infinity, a negative and a positive number.
\<close>

definition fog_frame :: fog where
  "fog_frame =
     \<lparr>GridSizeInt = Vec3 4 4 2,
      HistoryWeight = Finite (7 / 8),
      HistoryMissSuperSampleCount = 4,
      history_uv = (\<lambda>g. case g of Vec3 x y z \<Rightarrow>
                      Vec3 (if x = 0 then Finite (- 1 / 8) else Finite (1 / 2))
                           (Finite (1 / 2)) (Finite (1 / 2))),
      cs_sample = (\<lambda>g i acc. case acc of Vec3 a b c \<Rightarrow> Vec3 (fmax a (Finite (real (unat i) + 1))) b c),
      cs_normalize = (\<lambda>v n. v),
      cs_material = (\<lambda>g v. case v of Vec3 a b c \<Rightarrow> Vec4 NaN PosInf (Finite (- 2)) a),
      history_sample = (\<lambda>uv. Vec4 (Finite 7) (Finite 7) (Finite 7) (Finite 7)),
      lerp = (\<lambda>a b t. b),
      ps_sample = (\<lambda>g i acc. case acc of Vec4 r g b a \<Rightarrow>
                     Vec4 (fmax r (Finite (real (unat i) + 1))) g b a),
      ps_normalize = (\<lambda>v n. case v of Vec4 r g b a \<Rightarrow> Vec4 r g b (Finite (real (unat n))))\<rparr>"

subsection \<open>The final integration pass\<close>

text \<open>
  \<^verbatim>\<open>CS_FinalIntegration\<close> is arithmetic throughout, so it is modelled over any carrier
  \<open>'f\<close> of float values with the operations of the shader language as parameters: the
  four operations, negation, \<^verbatim>\<open>exp\<close>, \<^verbatim>\<open>max\<close>, \<^verbatim>\<open>length\<close> of a \<^verbatim>\<open>float3\<close> and the values of
  the literals \<open>0\<close>, \<open>1\<close> and \<^verbatim>\<open>.00001f\<close>. Vector operations are component by component.
\<close>

record 'f float_ops =
  f_add :: "'f \<Rightarrow> 'f \<Rightarrow> 'f"
  f_sub :: "'f \<Rightarrow> 'f \<Rightarrow> 'f"
  f_mul :: "'f \<Rightarrow> 'f \<Rightarrow> 'f"
  f_div :: "'f \<Rightarrow> 'f \<Rightarrow> 'f"
  f_neg :: "'f \<Rightarrow> 'f"
  f_exp :: "'f \<Rightarrow> 'f"
  f_max :: "'f \<Rightarrow> 'f \<Rightarrow> 'f"
  f_length :: "'f vec3 \<Rightarrow> 'f"
  f_zero :: 'f
  f_one :: 'f
  f_lit_00001 :: 'f

fun rgb :: "'f vec4 \<Rightarrow> 'f vec3" where
  "rgb (Vec4 r g b a) = Vec3 r g b"

fun alpha :: "'f vec4 \<Rightarrow> 'f" where
  "alpha (Vec4 r g b a) = a"

fun float4 :: "'f vec3 \<Rightarrow> 'f \<Rightarrow> 'f vec4" where
  "float4 (Vec3 r g b) a = Vec4 r g b a"

fun zip3 :: "('f \<Rightarrow> 'f \<Rightarrow> 'f) \<Rightarrow> 'f vec3 \<Rightarrow> 'f vec3 \<Rightarrow> 'f vec3" where
  "zip3 f (Vec3 a b c) (Vec3 a' b' c') = Vec3 (f a a') (f b b') (f c c')"

text \<open>
  What the pass reads: \<^verbatim>\<open>GBuffer.ViewPos\<close>, \<^verbatim>\<open>GridSizeInt.z\<close> (converted to \<^verbatim>\<open>uint\<close> by the
  loop's comparison), the texture \<^verbatim>\<open>LightScattering\<close>, and
  \<^verbatim>\<open>ComputeCellWorldPosition(coordinate, 0.5f)\<close>, which rests on the G-buffer shader file
  and is the parameter \<open>cell_centre\<close>.
\<close>

record 'f integration_frame =
  ViewPos :: "'f vec3"
  GridSizeInt_z :: uint
  LightScattering :: "uint vec3 \<Rightarrow> 'f vec4"
  cell_centre :: "uint vec3 \<Rightarrow> 'f vec3"

text \<open>
  One iteration of the loop for the layer coordinate: from
  \<^verbatim>\<open>accumulatedLightingAndTransmittance\<close> and \<^verbatim>\<open>previousSliceWorldPosition\<close> to their new
  values. The new accumulated value is what is stored for the layer (both debug switches
  are 0, and \<^verbatim>\<open>ENERGY_CONSERVING_INTEGRATION\<close> is 1).
\<close>

definition integrate_layer ::
  "'f float_ops \<Rightarrow> 'f integration_frame \<Rightarrow> uint vec3 \<Rightarrow> 'f vec4 \<times> 'f vec3 \<Rightarrow> 'f vec4 \<times> 'f vec3" where
  "integrate_layer ops fr layerCoordinate s =
     (case s of (accumulatedLightingAndTransmittance, previousSliceWorldPosition) \<Rightarrow>
        let scatteringAndExtinction = LightScattering fr layerCoordinate;
            layerWorldPosition = cell_centre fr layerCoordinate;
            stepLength = f_length ops
              (zip3 (f_sub ops) layerWorldPosition previousSliceWorldPosition);
            transmittance = f_exp ops
              (f_mul ops (f_neg ops (alpha scatteringAndExtinction)) stepLength);
            scatteringIntegratedOverSlice =
              map_vec3 (\<lambda>c. f_div ops c (f_max ops (alpha scatteringAndExtinction) (f_lit_00001 ops)))
                (zip3 (f_sub ops) (rgb scatteringAndExtinction)
                   (map_vec3 (\<lambda>c. f_mul ops c transmittance) (rgb scatteringAndExtinction)));
            accumulated_rgb =
              zip3 (f_add ops) (rgb accumulatedLightingAndTransmittance)
                (map_vec3 (\<lambda>c. f_mul ops c (alpha accumulatedLightingAndTransmittance))
                   scatteringIntegratedOverSlice);
            accumulated_a = f_mul ops (alpha accumulatedLightingAndTransmittance) transmittance
        in (float4 accumulated_rgb accumulated_a, layerWorldPosition))"

text \<open>
  \<^verbatim>\<open>for (uint layerIndex = 0; layerIndex < GridSizeInt.z; layerIndex++)\<close> for the thread
  of the column \<open>(x, y)\<close>: the state and the stores to \<^verbatim>\<open>RWIntegratedLightScattering\<close> made
  so far, in order.
\<close>

function CS_FinalIntegration_loop ::
  "'f float_ops \<Rightarrow> 'f integration_frame \<Rightarrow> uint \<Rightarrow> uint \<Rightarrow> uint
     \<Rightarrow> ('f vec4 \<times> 'f vec3) \<times> (uint vec3 \<times> 'f vec4) list
     \<Rightarrow> ('f vec4 \<times> 'f vec3) \<times> (uint vec3 \<times> 'f vec4) list" where
  "CS_FinalIntegration_loop ops fr x y layerIndex st =
     (if layerIndex < GridSizeInt_z fr then
        (let layerCoordinate = Vec3 x y layerIndex;
             s = integrate_layer ops fr layerCoordinate (fst st)
         in CS_FinalIntegration_loop ops fr x y (layerIndex + 1)
              (s, snd st @ [(layerCoordinate, fst s)]))
      else st)"
  by pat_completeness auto
termination
proof (relation "measure (\<lambda>(ops, fr, x, y, i, st). unat (GridSizeInt_z fr) - unat i)")
  show "wf (measure (\<lambda>(ops, fr, x, y, i, st). unat (GridSizeInt_z fr) - unat i))"
    by simp
next
  fix ops :: "'f float_ops" and fr :: "'f integration_frame" and x y layerIndex :: uint
    and st :: "('f vec4 \<times> 'f vec3) \<times> (uint vec3 \<times> 'f vec4) list"
    and layerCoordinate s
  assume "layerIndex < GridSizeInt_z fr"
  then have lt: "unat layerIndex < unat (GridSizeInt_z fr)"
    by (simp add: word_less_nat_alt)
  have "unat (GridSizeInt_z fr) < 2 ^ LENGTH(32)"
    by (rule unsigned_less)
  with lt have "unat layerIndex + unat (1 :: uint) < 2 ^ LENGTH(32)"
    by simp
  then have "unat (layerIndex + 1) = unat layerIndex + unat (1 :: uint)"
    by (simp only: unat_add_lem)
  then have "unat (layerIndex + 1) = unat layerIndex + 1"
    by simp
  with lt show "((ops, fr, x, y, layerIndex + 1, s, snd st @ [(layerCoordinate, fst s)]),
                 (ops, fr, x, y, layerIndex, st))
                \<in> measure (\<lambda>(ops, fr, x, y, i, st). unat (GridSizeInt_z fr) - unat i)"
    by simp
qed

declare CS_FinalIntegration_loop.simps [simp del]

text \<open>The pass for the thread with \<^verbatim>\<open>DispatchThreadId.xy = (x, y)\<close>: its stores, in order.\<close>

definition CS_FinalIntegration ::
  "'f float_ops \<Rightarrow> 'f integration_frame \<Rightarrow> uint \<Rightarrow> uint \<Rightarrow> (uint vec3 \<times> 'f vec4) list" where
  "CS_FinalIntegration ops fr x y =
     snd (CS_FinalIntegration_loop ops fr x y 0
            ((Vec4 (f_zero ops) (f_zero ops) (f_zero ops) (f_one ops), ViewPos fr), []))"

text \<open>
  The integration in the words of the specification, for a column whose slice \<open>k\<close> has
  the scattering and extinction \<open>slices k\<close> and the step length \<open>step k\<close>: the accumulated
  colour and transmittance after the slices \<open>0, \<dots>, k - 1\<close>. It starts from colour 0 and
  transmittance 1; a slice with scattering \<open>S\<close> and extinction \<open>\<sigma>\<close> has the transmittance
  \<open>T = exp (- \<sigma> * step)\<close>, adds \<open>(S - S * T) / max \<sigma> 0.00001\<close> times the accumulated
  transmittance to the colour and then multiplies the accumulated transmittance by \<open>T\<close>.
\<close>

fun integrated :: "'f float_ops \<Rightarrow> (nat \<Rightarrow> 'f vec4) \<Rightarrow> (nat \<Rightarrow> 'f) \<Rightarrow> nat \<Rightarrow> 'f vec4" where
  "integrated ops slices step 0 = Vec4 (f_zero ops) (f_zero ops) (f_zero ops) (f_one ops)"
| "integrated ops slices step (Suc k) =
     (let acc = integrated ops slices step k;
          S = rgb (slices k);
          sigma = alpha (slices k);
          T = f_exp ops (f_mul ops (f_neg ops sigma) (step k));
          added = map_vec3 (\<lambda>c. f_div ops c (f_max ops sigma (f_lit_00001 ops)))
                    (zip3 (f_sub ops) S (map_vec3 (\<lambda>c. f_mul ops c T) S))
      in float4 (zip3 (f_add ops) (rgb acc) (map_vec3 (\<lambda>c. f_mul ops c (alpha acc)) added))
           (f_mul ops (alpha acc) T))"

text \<open>
  Two readings of the step length of slice \<open>k\<close> of the column \<open>(x, y)\<close>. The first is the
  specification's: the distance between consecutive slice centres, for the first slice
  those of the slices 0 and 1. The second measures the first slice from the camera.
\<close>

definition step_between_centres ::
  "'f float_ops \<Rightarrow> 'f integration_frame \<Rightarrow> uint \<Rightarrow> uint \<Rightarrow> nat \<Rightarrow> 'f" where
  "step_between_centres ops fr x y k =
     (if k = 0
      then f_length ops (zip3 (f_sub ops) (cell_centre fr (Vec3 x y 1)) (cell_centre fr (Vec3 x y 0)))
      else f_length ops (zip3 (f_sub ops) (cell_centre fr (Vec3 x y (word_of_nat k)))
                           (cell_centre fr (Vec3 x y (word_of_nat (k - 1))))))"

definition step_from_camera ::
  "'f float_ops \<Rightarrow> 'f integration_frame \<Rightarrow> uint \<Rightarrow> uint \<Rightarrow> nat \<Rightarrow> 'f" where
  "step_from_camera ops fr x y k =
     (if k = 0
      then f_length ops (zip3 (f_sub ops) (cell_centre fr (Vec3 x y 0)) (ViewPos fr))
      else f_length ops (zip3 (f_sub ops) (cell_centre fr (Vec3 x y (word_of_nat k)))
                           (cell_centre fr (Vec3 x y (word_of_nat (k - 1))))))"

text \<open>The stores of a column as the specification describes them, for a reading of the
  step length: slice after slice in increasing \<open>z\<close>, each with the value accumulated up to
  and including it.\<close>

definition integrated_column ::
  "'f float_ops \<Rightarrow> 'f integration_frame \<Rightarrow> (nat \<Rightarrow> 'f) \<Rightarrow> uint \<Rightarrow> uint \<Rightarrow> (uint vec3 \<times> 'f vec4) list" where
  "integrated_column ops fr step x y =
     map (\<lambda>k. (Vec3 x y (word_of_nat k),
               integrated ops (\<lambda>k. LightScattering fr (Vec3 x y (word_of_nat k))) step (Suc k)))
       [0..<unat (GridSizeInt_z fr)]"

text \<open>
  Exact arithmetic on the reals, and a frame of two slices to run the pass on: the
  camera at the origin, the slice centres at depth 1 and 3 on the \<open>z\<close> axis, and in
  every voxel scattering 1 in red and extinction 1.
\<close>

definition real_ops :: "real float_ops" where
  "real_ops =
     \<lparr>f_add = (+), f_sub = (-), f_mul = (*), f_div = (/), f_neg = uminus, f_exp = exp,
      f_max = max, f_length = (\<lambda>v. case v of Vec3 a b c \<Rightarrow> sqrt (a * a + b * b + c * c)),
      f_zero = 0, f_one = 1, f_lit_00001 = 1 / 100000\<rparr>"

definition two_slices :: "real integration_frame" where
  "two_slices =
     \<lparr>ViewPos = Vec3 0 0 0,
      GridSizeInt_z = 2,
      LightScattering = (\<lambda>c. Vec4 1 0 0 1),
      cell_centre = (\<lambda>c. case c of Vec3 x y z \<Rightarrow> Vec3 0 0 (1 + 2 * real (unat z)))\<rparr>"

text \<open>
  The transmittance of the pass, slice by slice, for the column \<open>(x, y)\<close>: the factor
  \<^verbatim>\<open>transmittance\<close> that the iteration for slice \<open>k\<close> computes, and the alpha channel of
  the \<open>k\<close>-th store to \<^verbatim>\<open>RWIntegratedLightScattering\<close>.
\<close>

definition slice_transmittance ::
  "'f float_ops \<Rightarrow> 'f integration_frame \<Rightarrow> uint \<Rightarrow> uint \<Rightarrow> nat \<Rightarrow> 'f" where
  "slice_transmittance ops fr x y k =
     f_exp ops (f_mul ops (f_neg ops (alpha (LightScattering fr (Vec3 x y (word_of_nat k)))))
                  (step_from_camera ops fr x y k))"

definition stored_transmittance ::
  "'f float_ops \<Rightarrow> 'f integration_frame \<Rightarrow> uint \<Rightarrow> uint \<Rightarrow> nat \<Rightarrow> 'f" where
  "stored_transmittance ops fr x y k = alpha (snd (CS_FinalIntegration ops fr x y ! k))"

text \<open>
  Two properties of an arithmetic on finite values. It is sound for the transmittance
  when the literal 1 is 1, a length is not negative, the product of the negation of a
  non-negative value with a non-negative value is not positive, \<^verbatim>\<open>exp\<close> of a non-positive
  value lies between 0 and 1, and the product of a non-negative \<open>a\<close> with a factor between
  0 and 1 lies between 0 and \<open>a\<close>: all true of exact arithmetic, and of an arithmetic that
  rounds the exact result monotonically to a set of values holding 0 and 1. It is free
  of underflow when \<^verbatim>\<open>exp\<close> is positive and a product of positive values is positive.
\<close>

definition sound_rounding :: "real float_ops \<Rightarrow> bool" where
  "sound_rounding ops =
     (f_one ops = 1 \<and>
      (\<forall>v. 0 \<le> f_length ops v) \<and>
      (\<forall>s l. 0 \<le> s \<and> 0 \<le> l \<longrightarrow> f_mul ops (f_neg ops s) l \<le> 0) \<and>
      (\<forall>e. e \<le> 0 \<longrightarrow> 0 \<le> f_exp ops e \<and> f_exp ops e \<le> 1) \<and>
      (\<forall>a t. 0 \<le> a \<and> 0 \<le> t \<and> t \<le> 1 \<longrightarrow> 0 \<le> f_mul ops a t \<and> f_mul ops a t \<le> a))"

definition no_underflow :: "real float_ops \<Rightarrow> bool" where
  "no_underflow ops =
     ((\<forall>e. 0 < f_exp ops e) \<and>
      (\<forall>a t. 0 < a \<and> 0 < t \<longrightarrow> 0 < f_mul ops a t))"

text \<open>
  Exact arithmetic but for an \<^verbatim>\<open>exp\<close> that underflows as the one of 32-bit floats does: the
  least positive 32-bit float is \<open>2\<^sup>-\<^sup>1\<^sup>4\<^sup>9\<close>, more than \<open>exp (- 104)\<close>, and \<^verbatim>\<open>exp\<close> of
  anything below \<open>- 104\<close> is 0. The frame \<open>dense_slices\<close> is \<open>two_slices\<close> with the
  extinction 1000 in every voxel; all the values that make the transmittance of its
  column (1000, the step lengths 1 and 2, their products) are 32-bit floats.
\<close>

definition underflow_ops :: "real float_ops" where
  "underflow_ops = real_ops\<lparr>f_exp := (\<lambda>e. if e < - 104 then 0 else exp e)\<rparr>"

definition dense_slices :: "real integration_frame" where
  "dense_slices = two_slices\<lparr>LightScattering := (\<lambda>c. Vec4 1 0 0 1000)\<rparr>"

section \<open>Registry probing: results\<close>

lemma TryReadDirRegistryKey_holds:
  "holds_dir reg vn k \<Longrightarrow>
   TryReadDirRegistryKey reg k vn tr = ((True, as_string (reg k vn)), tr @ [(k, vn)])"
  by (auto simp: TryReadDirRegistryKey_def Let_def split: option.splits reg_value.splits)

lemma TryReadDirRegistryKey_misses:
  "\<not> holds_dir reg vn k \<Longrightarrow>
   TryReadDirRegistryKey reg k vn tr = ((False, None), tr @ [(k, vn)])"
  by (auto simp: TryReadDirRegistryKey_def Let_def split: option.splits reg_value.splits)

text \<open>
  Claim C4. \<^verbatim>\<open>TryReadInstallDirRegistryKey32\<close> looks at the four locations
  HKCU\textbackslash SOFTWARE, HKLM\textbackslash SOFTWARE, HKCU\textbackslash SOFTWARE\textbackslash Wow6432Node and
  HKLM\textbackslash SOFTWARE\textbackslash Wow6432Node, in this order and at no other. When none holds a
  non-empty string, all four are read, the result is \<^verbatim>\<open>false\<close> and the directory is
  \<^verbatim>\<open>null\<close>; otherwise the reads stop at the first location that holds one, the result is
  \<^verbatim>\<open>true\<close> and the directory is the string stored there.
\<close>

theorem TryReadInstallDirRegistryKey32_first_hit:
  "TryReadInstallDirRegistryKey32 reg keySuffix valueName tr =
     (case List.find (holds_dir reg valueName) (install_dir_locations keySuffix) of
        None \<Rightarrow>
          ((False, None), tr @ map (\<lambda>k. (k, valueName)) (install_dir_locations keySuffix))
      | Some k \<Rightarrow>
          ((True, as_string (reg k valueName)),
           tr @ map (\<lambda>k. (k, valueName))
                  (takeWhile (\<lambda>k. \<not> holds_dir reg valueName k) (install_dir_locations keySuffix)
                   @ [k])))"
proof -
  let ?k1 = "''HKEY_CURRENT_USER'' @ bsl @ ''SOFTWARE'' @ bsl @ keySuffix"
  let ?k2 = "''HKEY_LOCAL_MACHINE'' @ bsl @ ''SOFTWARE'' @ bsl @ keySuffix"
  let ?k3 = "''HKEY_CURRENT_USER'' @ bsl @ ''SOFTWARE'' @ bsl @ ''Wow6432Node'' @ bsl @ keySuffix"
  let ?k4 = "''HKEY_LOCAL_MACHINE'' @ bsl @ ''SOFTWARE'' @ bsl @ ''Wow6432Node'' @ bsl @ keySuffix"
  have locs: "install_dir_locations keySuffix = [?k1, ?k2, ?k3, ?k4]"
    by (simp add: install_dir_locations_def)
  consider (a) "holds_dir reg valueName ?k1"
    | (b) "\<not> holds_dir reg valueName ?k1" "holds_dir reg valueName ?k2"
    | (c) "\<not> holds_dir reg valueName ?k1" "\<not> holds_dir reg valueName ?k2"
          "holds_dir reg valueName ?k3"
    | (d) "\<not> holds_dir reg valueName ?k1" "\<not> holds_dir reg valueName ?k2"
          "\<not> holds_dir reg valueName ?k3" "holds_dir reg valueName ?k4"
    | (e) "\<not> holds_dir reg valueName ?k1" "\<not> holds_dir reg valueName ?k2"
          "\<not> holds_dir reg valueName ?k3" "\<not> holds_dir reg valueName ?k4"
    by blast
  then show ?thesis
  proof cases
    case a
    show ?thesis
      unfolding locs TryReadInstallDirRegistryKey32_def
      using a by (simp add: TryReadDirRegistryKey_holds del: holds_dir.simps)
  next
    case b
    show ?thesis
      unfolding locs TryReadInstallDirRegistryKey32_def
      using b
      by (simp add: TryReadDirRegistryKey_holds TryReadDirRegistryKey_misses
          del: holds_dir.simps)
  next
    case c
    show ?thesis
      unfolding locs TryReadInstallDirRegistryKey32_def
      using c
      by (simp add: TryReadDirRegistryKey_holds TryReadDirRegistryKey_misses
          del: holds_dir.simps)
  next
    case d
    show ?thesis
      unfolding locs TryReadInstallDirRegistryKey32_def
      using d
      by (simp add: TryReadDirRegistryKey_holds TryReadDirRegistryKey_misses
          del: holds_dir.simps)
  next
    case e
    show ?thesis
      unfolding locs TryReadInstallDirRegistryKey32_def
      using e
      by (simp add: TryReadDirRegistryKey_holds TryReadDirRegistryKey_misses
          del: holds_dir.simps)
  qed
qed

section \<open>Installed Windows SDKs: results\<close>














lemma GetSDKs_host_sdk:
  "GetSDKs host_sdk fresh_statics =
     (Inr [(v8_1, ''W''), (v10_0_19041_0, ''K'')],
      \<lparr>s_toolsets = None, s_sdks = Some [(v8_1, ''W''), (v10_0_19041_0, ''K'')],
       s_log = [Warning_UnknownWindows10SDK (Version4 10 0 1 0) ''K'',
                Verbose_FoundWindowsSDK v8_1 ''W'',
                Verbose_FoundWindowsSDK v10_0_19041_0 ''K'']\<rparr>)"
  by (simp add: GetSDKs_def fresh_statics_def host_sdk_def check_sdk81_def read_install_dir_def
      TryReadInstallDirRegistryKey32_def TryReadDirRegistryKey_def sdk81_key_def bsl_def
      kits_roots_key_def sdk10_key_def sdk10Roots_def HashSet_Add_def add_sdk_def
      Dictionary_Add_def join_path_def file_name_def parse_version_def register_sdk10_def
      Version4_def Version2_def)












section \<open>Toolchain cache and required SDKs: results\<close>

lemma GetSDKs_returns_cache:
  "GetSDKs h st = (Inr sdsk, st1) \<Longrightarrow> s_sdks st1 = Some sdsk"
  by (auto simp: GetSDKs_def split: option.splits prod.splits)

lemma GetToolsets_returns_cache:
  "GetToolsets h st1 = (toolsets, st2) \<Longrightarrow>
   s_toolsets st2 = Some toolsets \<and> s_sdks st2 = s_sdks st1"
  by (auto simp: GetToolsets_def Let_def split: option.splits)

lemma WindowsPlatformBase_ctor_flag:
  assumes "WindowsPlatformBase_ctor h st = (Inr flag, st')"
  shows "\<exists>sdks toolsets. s_sdks st' = Some sdks \<and> s_toolsets st' = Some toolsets \<and>
           flag = (sdks \<noteq> [] \<and> toolsets \<noteq> [])"
proof -
  from assms obtain sdsk st1 toolsets where
    a: "GetSDKs h st = (Inr sdsk, st1)" and b: "GetToolsets h st1 = (toolsets, st')"
    and f: "flag = (length sdsk > 0 \<and> length toolsets > 0)"
    by (auto simp: WindowsPlatformBase_ctor_def split: prod.splits sum.splits)
  from GetSDKs_returns_cache [OF a] GetToolsets_returns_cache [OF b] f
  show ?thesis by auto
qed

lemma GetToolchain_no_sdk:
  "\<not> HasRequiredSDKsInstalled p \<Longrightarrow>
   GetToolchain CreateToolchain arch (p, w) = (Inl (Exception_NoRequiredSDK (Target p)), p, w)"
  by (simp add: GetToolchain_def)

lemma GetToolchain_hit:
  assumes "HasRequiredSDKsInstalled p" and "toolchains p = Some d" and "map_of d arch = Some t"
  shows "GetToolchain CreateToolchain arch (p, w) = (Inr t, p, w)"
proof -
  from assms(2) have "p\<lparr>toolchains := Some d\<rparr> = p"
    by (cases p) simp
  with assms show ?thesis
    by (simp add: GetToolchain_def)
qed

lemma map_of_append_new:
  "map_of d k = None \<Longrightarrow> map_of (d @ [(k, v)]) k' = (if k' = k then Some v else map_of d k')"
  by (induction d) auto

lemma GetToolchain_keeps:
  assumes "HasRequiredSDKsInstalled p" and "toolchains p = Some d" and "map_of d arch = Some t"
    and "GetToolchain CreateToolchain arch2 (p, w) = (r, p', w')"
  shows "HasRequiredSDKsInstalled p' \<and> (\<exists>d'. toolchains p' = Some d' \<and> map_of d' arch = Some t)"
proof (cases "map_of d arch2")
  case (Some t2)
  with assms have "p' = p\<lparr>toolchains := Some d\<rparr>"
    by (auto simp: GetToolchain_def)
  with assms show ?thesis by simp
next
  case None
  obtain tc w2 where c: "CreateToolchain arch2 w = (tc, w2)"
    by (cases "CreateToolchain arch2 w")
  from None assms(1,2,4) c have "p' = p\<lparr>toolchains := Some (d @ [(arch2, tc)])\<rparr>"
    by (simp add: GetToolchain_def Dictionary_Add_def)
  moreover from None assms(3) have "map_of (d @ [(arch2, tc)]) arch = Some t"
    by (auto simp: map_of_append_new)
  ultimately show ?thesis using assms(1) by simp
qed

lemma GetToolchain_returns:
  assumes "HasRequiredSDKsInstalled p"
  shows "\<exists>t p' w' d'. GetToolchain CreateToolchain arch (p, w) = (Inr t, p', w') \<and>
           HasRequiredSDKsInstalled p' \<and> toolchains p' = Some d' \<and> map_of d' arch = Some t"
proof -
  define d where "d = (case toolchains p of None \<Rightarrow> [] | Some d \<Rightarrow> d)"
  show ?thesis
  proof (cases "map_of d arch")
    case (Some t)
    with assms have "GetToolchain CreateToolchain arch (p, w) =
                       (Inr t, p\<lparr>toolchains := Some d\<rparr>, w)"
      by (simp add: GetToolchain_def d_def)
    with Some assms show ?thesis by simp
  next
    case None
    obtain tc w2 where c: "CreateToolchain arch w = (tc, w2)"
      by (cases "CreateToolchain arch w")
    from None assms c have "GetToolchain CreateToolchain arch (p, w) =
                              (Inr tc, p\<lparr>toolchains := Some (d @ [(arch, tc)])\<rparr>, w2)"
      by (simp add: GetToolchain_def d_def Dictionary_Add_def)
    moreover from None have "map_of (d @ [(arch, tc)]) arch = Some tc"
      by (simp add: map_add_def)
    ultimately show ?thesis using assms by simp
  qed
qed

text \<open>
  Claim C6. Without the required SDKs \<^verbatim>\<open>GetToolchain\<close> throws and changes nothing. With
  them it returns a toolchain; the next call for the same architecture returns the same
  toolchain object and creates nothing (platform and program state stay as they are), and
  so does any call for that architecture after a call for any other architecture. The
  flag that the constructor of \<^verbatim>\<open>WindowsPlatformBase\<close> stores is true exactly when the
  dictionary of SDKs and the dictionary of toolsets it has looked up are both non-empty.
\<close>

theorem GetToolchain_cached_per_architecture:
  "(\<not> HasRequiredSDKsInstalled p \<longrightarrow>
      GetToolchain CreateToolchain arch (p, w) = (Inl (Exception_NoRequiredSDK (Target p)), p, w)) \<and>
   (HasRequiredSDKsInstalled p \<longrightarrow>
      (\<exists>t p' w'. GetToolchain CreateToolchain arch (p, w) = (Inr t, p', w') \<and>
         GetToolchain CreateToolchain arch (p', w') = (Inr t, p', w') \<and>
         (\<forall>arch2 w2. \<exists>r p2 w3. GetToolchain CreateToolchain arch2 (p', w2) = (r, p2, w3) \<and>
            GetToolchain CreateToolchain arch (p2, w3) = (Inr t, p2, w3)))) \<and>
   (\<forall>flag st'. WindowsPlatformBase_ctor h st = (Inr flag, st') \<longrightarrow>
      (\<exists>sdks toolsets. s_sdks st' = Some sdks \<and> s_toolsets st' = Some toolsets \<and>
         flag = (sdks \<noteq> [] \<and> toolsets \<noteq> [])))"
proof (intro conjI impI allI)
  assume "\<not> HasRequiredSDKsInstalled p"
  then show "GetToolchain CreateToolchain arch (p, w) =
               (Inl (Exception_NoRequiredSDK (Target p)), p, w)"
    by (rule GetToolchain_no_sdk)
next
  assume "HasRequiredSDKsInstalled p"
  from GetToolchain_returns [OF this, of CreateToolchain arch w] obtain t p' w' d' where
    first: "GetToolchain CreateToolchain arch (p, w) = (Inr t, p', w')"
    and p': "HasRequiredSDKsInstalled p'" "toolchains p' = Some d'" "map_of d' arch = Some t"
    by blast
  have again: "GetToolchain CreateToolchain arch (p', w') = (Inr t, p', w')"
    using p' by (rule GetToolchain_hit)
  have later: "\<exists>r p2 w3. GetToolchain CreateToolchain arch2 (p', w2) = (r, p2, w3) \<and>
                 GetToolchain CreateToolchain arch (p2, w3) = (Inr t, p2, w3)" for arch2 w2
  proof -
    obtain r p2 w3 where c: "GetToolchain CreateToolchain arch2 (p', w2) = (r, p2, w3)"
      by (metis prod_cases3)
    from GetToolchain_keeps [OF p' c] obtain d2 where
      "HasRequiredSDKsInstalled p2" "toolchains p2 = Some d2" "map_of d2 arch = Some t"
      by blast
    then have "GetToolchain CreateToolchain arch (p2, w3) = (Inr t, p2, w3)"
      by (rule GetToolchain_hit)
    with c show ?thesis by blast
  qed
  from first again later
  show "\<exists>t p' w'. GetToolchain CreateToolchain arch (p, w) = (Inr t, p', w') \<and>
         GetToolchain CreateToolchain arch (p', w') = (Inr t, p', w') \<and>
         (\<forall>arch2 w2. \<exists>r p2 w3. GetToolchain CreateToolchain arch2 (p', w2) = (r, p2, w3) \<and>
            GetToolchain CreateToolchain arch (p2, w3) = (Inr t, p2, w3))"
    by blast
next
  fix flag st'
  assume "WindowsPlatformBase_ctor h st = (Inr flag, st')"
  then show "\<exists>sdks toolsets. s_sdks st' = Some sdks \<and> s_toolsets st' = Some toolsets \<and>
               flag = (sdks \<noteq> [] \<and> toolsets \<noteq> [])"
    by (rule WindowsPlatformBase_ctor_flag)
qed

lemma GetSDKs_host_dev:
  "GetSDKs host_dev fresh_statics =
     (Inr [(v8_1, ''W''), (v10_0_19041_0, ''K'')],
      \<lparr>s_toolsets = None, s_sdks = Some [(v8_1, ''W''), (v10_0_19041_0, ''K'')],
       s_log = [Warning_UnknownWindows10SDK (Version4 10 0 1 0) ''K'',
                Verbose_FoundWindowsSDK v8_1 ''W'',
                Verbose_FoundWindowsSDK v10_0_19041_0 ''K'']\<rparr>)"
  by (simp add: GetSDKs_def fresh_statics_def host_dev_def host_sdk_def check_sdk81_def
      read_install_dir_def TryReadInstallDirRegistryKey32_def TryReadDirRegistryKey_def
      sdk81_key_def bsl_def kits_roots_key_def sdk10_key_def sdk10Roots_def HashSet_Add_def
      add_sdk_def Dictionary_Add_def join_path_def file_name_def parse_version_def
      parse_toolset_version_def register_sdk10_def Version4_def Version2_def)

lemma WindowsPlatformBase_ctor_host_dev:
  "WindowsPlatformBase_ctor host_dev fresh_statics =
     (Inr True,
      \<lparr>s_toolsets = Some [(v142, ''V/VC/Tools/MSVC/14.29.30133'')],
       s_sdks = Some [(v8_1, ''W''), (v10_0_19041_0, ''K'')],
       s_log = [Warning_UnknownWindows10SDK (Version4 10 0 1 0) ''K'',
                Verbose_FoundWindowsSDK v8_1 ''W'',
                Verbose_FoundWindowsSDK v10_0_19041_0 ''K'',
                Verbose_FoundWindowsToolset v142 ''V/VC/Tools/MSVC/14.29.30133'']\<rparr>)"
  unfolding WindowsPlatformBase_ctor_def GetSDKs_host_dev
  by (simp add: GetToolsets_def host_dev_def host_sdk_def FindMsvcToolsets_def
      join_path_def file_name_def parse_toolset_version_def parse_version_def
      Dictionary_Set_def signed_divide_int_def Let_def)

lemma WindowsPlatformBase_ctor_host_sdk:
  "WindowsPlatformBase_ctor host_sdk fresh_statics =
     (Inr False,
      \<lparr>s_toolsets = Some [],
       s_sdks = Some [(v8_1, ''W''), (v10_0_19041_0, ''K'')],
       s_log = [Warning_UnknownWindows10SDK (Version4 10 0 1 0) ''K'',
                Verbose_FoundWindowsSDK v8_1 ''W'',
                Verbose_FoundWindowsSDK v10_0_19041_0 ''K'']\<rparr>)"
  unfolding WindowsPlatformBase_ctor_def GetSDKs_host_sdk
  by (simp add: GetToolsets_def host_sdk_def Let_def)

theorem GetToolchain_cached_per_architecture_witness:
  "GetToolchain numbered_toolchain ''x64''
     (\<lparr>Target = Windows, HasRequiredSDKsInstalled = False, toolchains = None\<rparr>, 7) =
     (Inl (Exception_NoRequiredSDK Windows),
      \<lparr>Target = Windows, HasRequiredSDKsInstalled = False, toolchains = None\<rparr>, 7) \<and>
   (\<exists>p' w'.
      GetToolchain numbered_toolchain ''x64''
        (\<lparr>Target = Windows, HasRequiredSDKsInstalled = True, toolchains = None\<rparr>, 7) =
        (Inr 7, p', w') \<and>
      GetToolchain numbered_toolchain ''x64'' (p', w') = (Inr 7, p', w') \<and>
      (\<exists>r p2 w3. GetToolchain numbered_toolchain ''x86'' (p', w') = (r, p2, w3) \<and>
         GetToolchain numbered_toolchain ''x64'' (p2, w3) = (Inr 7, p2, w3))) \<and>
   fst (WindowsPlatformBase_ctor host_dev fresh_statics) = Inr True \<and>
   s_sdks (snd (WindowsPlatformBase_ctor host_dev fresh_statics)) =
     Some [(v8_1, ''W''), (v10_0_19041_0, ''K'')] \<and>
   s_toolsets (snd (WindowsPlatformBase_ctor host_dev fresh_statics)) =
     Some [(v142, ''V/VC/Tools/MSVC/14.29.30133'')] \<and>
   fst (WindowsPlatformBase_ctor host_sdk fresh_statics) = Inr False \<and>
   s_toolsets (snd (WindowsPlatformBase_ctor host_sdk fresh_statics)) = Some []"
proof -
  let ?off = "\<lparr>Target = Windows, HasRequiredSDKsInstalled = False,
               toolchains = None :: (string \<times> nat) list option\<rparr>"
  let ?on = "\<lparr>Target = Windows, HasRequiredSDKsInstalled = True,
              toolchains = None :: (string \<times> nat) list option\<rparr>"
  note off = GetToolchain_cached_per_architecture
    [of ?off numbered_toolchain "''x64''" "7::nat" host_dev fresh_statics]
  note on = GetToolchain_cached_per_architecture
    [of ?on numbered_toolchain "''x64''" "7::nat" host_sdk fresh_statics]
  from off have 1: "GetToolchain numbered_toolchain ''x64'' (?off, 7) =
                      (Inl (Exception_NoRequiredSDK Windows), ?off, 7)"
    by simp
  from on obtain t p' w' where
    2: "GetToolchain numbered_toolchain ''x64'' (?on, 7) = (Inr t, p', w')"
       "GetToolchain numbered_toolchain ''x64'' (p', w') = (Inr t, p', w')"
       "\<forall>arch2 w2. \<exists>r p2 w3. GetToolchain numbered_toolchain arch2 (p', w2) = (r, p2, w3) \<and>
            GetToolchain numbered_toolchain ''x64'' (p2, w3) = (Inr t, p2, w3)"
    by auto
  from 2(1) have t: "t = 7"
    by (simp add: GetToolchain_def numbered_toolchain_def Dictionary_Add_def)
  from off have 3: "\<exists>sdks toolsets.
      s_sdks (snd (WindowsPlatformBase_ctor host_dev fresh_statics)) = Some sdks \<and>
      s_toolsets (snd (WindowsPlatformBase_ctor host_dev fresh_statics)) = Some toolsets \<and>
      True = (sdks \<noteq> [] \<and> toolsets \<noteq> [])"
    by (simp add: WindowsPlatformBase_ctor_host_dev)
  from on have 4: "\<exists>sdks toolsets.
      s_sdks (snd (WindowsPlatformBase_ctor host_sdk fresh_statics)) = Some sdks \<and>
      s_toolsets (snd (WindowsPlatformBase_ctor host_sdk fresh_statics)) = Some toolsets \<and>
      False = (sdks \<noteq> [] \<and> toolsets \<noteq> [])"
    by (simp add: WindowsPlatformBase_ctor_host_sdk)
  from 1 2 t 3 4 show ?thesis
    by (simp add: WindowsPlatformBase_ctor_host_dev WindowsPlatformBase_ctor_host_sdk)
qed

section \<open>Build rules of the texture tool: results\<close>

text \<open>
  Claim C7. Let \<open>o1\<close> be the options as the base \<^verbatim>\<open>Setup\<close> leaves them. On Windows, UWP,
  XboxOne and XboxScarlett, \<^verbatim>\<open>TextureTool.Setup\<close> returns and has appended the one
  dependency DirectXTex (and the source file TextureTool.DirectXTex.cpp) to what \<open>o1\<close>
  held; on Linux, PS4 and Android the one dependency stb (and TextureTool.stb.cpp). On
  every other platform it throws \<^verbatim>\<open>InvalidPlatformException\<close> for that platform and the
  private dependencies are those of \<open>o1\<close>: none has been added.
\<close>

theorem TextureTool_Setup_codec:
  fixes PathCombine base_Setup FolderPath options
  defines "o1 \<equiv> base_Setup options"
  defines "common \<equiv> SourceFiles o1 @ [PathCombine [FolderPath, ''TextureTool.cpp''],
                                       PathCombine [FolderPath, ''TextureTool.h'']]"
  shows "(\<forall>dep file. texture_codec (Platform_Target o1) = Some (dep, file) \<longrightarrow>
           (\<exists>o'. TextureTool_Setup PathCombine base_Setup FolderPath options = Inr o'
              \<and> PrivateDependencies o' = PrivateDependencies o1 @ [dep]
              \<and> SourceFiles o' = common @ [PathCombine [FolderPath, file]]))
       \<and> (texture_codec (Platform_Target o1) = None \<longrightarrow>
           (\<exists>o'. TextureTool_Setup PathCombine base_Setup FolderPath options =
                    Inl (InvalidPlatformException (Platform_Target o1), o')
              \<and> PrivateDependencies o' = PrivateDependencies o1))"
  by (cases "Platform_Target o1";
      simp add: TextureTool_Setup_def o1_def common_def Let_def; fastforce)

theorem TextureTool_Setup_codec_witness:
  "(\<exists>o'. TextureTool_Setup concat id ''T/''
            \<lparr>Platform_Target = Windows, SourcePaths = [''T/''], SourceFiles = [],
             PrivateDependencies = [''Core''], PublicDefinitions = []\<rparr> = Inr o'
       \<and> PrivateDependencies o' = [''Core'', ''DirectXTex'']
       \<and> SourceFiles o' = [''T/TextureTool.cpp'', ''T/TextureTool.h'',
                            ''T/TextureTool.DirectXTex.cpp''])
   \<and> (\<exists>o'. TextureTool_Setup concat id ''T/''
            \<lparr>Platform_Target = Android, SourcePaths = [''T/''], SourceFiles = [],
             PrivateDependencies = [''Core''], PublicDefinitions = []\<rparr> = Inr o'
       \<and> PrivateDependencies o' = [''Core'', ''stb'']
       \<and> SourceFiles o' = [''T/TextureTool.cpp'', ''T/TextureTool.h'',
                            ''T/TextureTool.stb.cpp''])
   \<and> (\<exists>o'. TextureTool_Setup concat id ''T/''
            \<lparr>Platform_Target = OtherPlatform 8, SourcePaths = [''T/''], SourceFiles = [],
             PrivateDependencies = [''Core''], PublicDefinitions = []\<rparr> =
              Inl (InvalidPlatformException (OtherPlatform 8), o')
       \<and> PrivateDependencies o' = [''Core''])"
  using TextureTool_Setup_codec [where base_Setup = id and PathCombine = concat
          and FolderPath = "''T/''" and options =
          "\<lparr>Platform_Target = Windows, SourcePaths = [''T/''], SourceFiles = [],
             PrivateDependencies = [''Core''], PublicDefinitions = []\<rparr>"]
        TextureTool_Setup_codec [where base_Setup = id and PathCombine = concat
          and FolderPath = "''T/''" and options =
          "\<lparr>Platform_Target = Android, SourcePaths = [''T/''], SourceFiles = [],
             PrivateDependencies = [''Core''], PublicDefinitions = []\<rparr>"]
        TextureTool_Setup_codec [where base_Setup = id and PathCombine = concat
          and FolderPath = "''T/''" and options =
          "\<lparr>Platform_Target = OtherPlatform 8, SourcePaths = [''T/''], SourceFiles = [],
             PrivateDependencies = [''Core''], PublicDefinitions = []\<rparr>"]
  by simp

section \<open>Bounding box of a level of detail: results\<close>

lemma GetBox_loop_foldl:
  "GetBox_loop CalculateBox Merge Meshes i box =
     foldl (\<lambda>b m. Merge b (CalculateBox m)) box
       (filter (\<lambda>m. Positions m \<noteq> []) (drop i Meshes))"
proof (induction CalculateBox Merge Meshes i box rule: GetBox_loop.induct)
  case (1 CalculateBox Merge Meshes i box)
  show ?case
  proof (cases "i < length Meshes")
    case True
    then have d: "drop i Meshes = Meshes ! i # drop (i + 1) Meshes"
      by (simp add: Cons_nth_drop_Suc)
    show ?thesis
    proof (cases "HasItems (Positions (Meshes ! i))")
      case h: True
      have "GetBox_loop CalculateBox Merge Meshes i box =
              GetBox_loop CalculateBox Merge Meshes (i + 1) (Merge box (CalculateBox (Meshes ! i)))"
        using True h by (subst GetBox_loop.simps) simp
      also have "\<dots> = foldl (\<lambda>b m. Merge b (CalculateBox m)) (Merge box (CalculateBox (Meshes ! i)))
                         (filter (\<lambda>m. Positions m \<noteq> []) (drop (i + 1) Meshes))"
        using "1.IH"(1) True h by blast
      finally show ?thesis
        using h by (simp add: d HasItems_def)
    next
      case h: False
      have "GetBox_loop CalculateBox Merge Meshes i box =
              GetBox_loop CalculateBox Merge Meshes (i + 1) box"
        using True h by (subst GetBox_loop.simps) simp
      also have "\<dots> = foldl (\<lambda>b m. Merge b (CalculateBox m)) box
                         (filter (\<lambda>m. Positions m \<noteq> []) (drop (i + 1) Meshes))"
        using "1.IH"(2) True h by blast
      finally show ?thesis
        using h by (simp add: d HasItems_def)
    qed
  next
    case False
    then show ?thesis
      by (subst GetBox_loop.simps) simp
  qed
qed

text \<open>
  Claim C10. \<^verbatim>\<open>GetBox\<close> of an empty mesh list is \<^verbatim>\<open>BoundingBox::Empty\<close>. Otherwise it is
  the box of mesh 0 (computed whether or not mesh 0 has positions), merged from left to
  right with the box of every later mesh whose \<^verbatim>\<open>Positions\<close> array is not empty; later
  meshes without positions contribute nothing.
\<close>

theorem GetBox_merges_nonempty_meshes:
  "GetBox Empty CalculateBox Merge [] = Empty \<and>
   GetBox Empty CalculateBox Merge (m0 # ms) =
     foldl (\<lambda>box m. Merge box (CalculateBox m)) (CalculateBox m0)
       (filter (\<lambda>m. Positions m \<noteq> []) ms)"
  by (simp add: GetBox_def GetBox_loop_foldl)

section \<open>Editor cache file: results\<close>


















section \<open>Volumetric fog shaders: results\<close>

lemma unat_inc_below:
  fixes i n :: uint
  assumes "i < n"
  shows "unat (i + 1) = unat i + 1"
proof -
  from assms have lt: "unat i < unat n"
    by (simp add: word_less_nat_alt)
  have "unat n < 2 ^ LENGTH(32)"
    by (rule unsigned_less)
  with lt have "unat i + unat (1 :: uint) < 2 ^ LENGTH(32)"
    by simp
  then have "unat (i + 1) = unat i + unat (1 :: uint)"
    by (simp only: unat_add_lem)
  then show ?thesis by simp
qed

lemma sample_loop_fold:
  "sample_loop body n i s =
     (fold body (map word_of_nat [unat i..<unat n]) (fst s),
      snd s @ map word_of_nat [unat i..<unat n])"
proof (induction body n i s rule: sample_loop.induct)
  case (1 body n i s)
  show ?case
  proof (cases "i < n")
    case True
    then have lt: "unat i < unat n"
      by (simp add: word_less_nat_alt)
    have up: "[unat i..<unat n] = unat i # [unat (i + 1)..<unat n]"
      using lt by (simp add: unat_inc_below [OF True] upt_conv_Cons)
    have "sample_loop body n i s =
            sample_loop body n (i + 1) (body i (fst s), snd s @ [i])"
      using True by (subst sample_loop.simps) simp
    also have "\<dots> = (fold body (map word_of_nat [unat (i + 1)..<unat n]) (body i (fst s)),
                      (snd s @ [i]) @ map word_of_nat [unat (i + 1)..<unat n])"
      using "1.IH" [OF True] by simp
    finally show ?thesis
      by (simp add: up)
  next
    case False
    then have "unat n \<le> unat i"
      by (simp add: word_less_nat_alt)
    with False show ?thesis
      by (subst sample_loop.simps) simp
  qed
qed

lemma sanitized_component:
  "\<exists>r. fmax (if isnan c \<or> isinf c then Finite 0 else c) (Finite 0) = Finite r \<and> 0 \<le> r"
  by (cases c) auto

text \<open>
  Claim C8. \<^verbatim>\<open>CS_LightScattering\<close> stores exactly when every component of the grid
  coordinate is below the corresponding component of \<^verbatim>\<open>GridSizeInt\<close> (in the shader's
  comparison, which is unsigned), it stores at its own grid coordinate, and each component
  of what it stores is the component of \<^verbatim>\<open>scatteringAndExtinction\<close> with a NaN or an
  infinity replaced by zero and then clamped by \<^verbatim>\<open>max(., 0)\<close>: a finite number that is not
  negative.
\<close>

theorem CS_LightScattering_stores_finite_nonnegative:
  "(fst (CS_LightScattering USE_TEMPORAL_REPROJECTION e gridCoordinate) \<noteq> None) =
     all3 (less3 gridCoordinate (GridSizeInt e)) \<and>
   (\<forall>coordinate v.
      fst (CS_LightScattering USE_TEMPORAL_REPROJECTION e gridCoordinate) = Some (coordinate, v) \<longrightarrow>
      coordinate = gridCoordinate \<and>
      v = map_vec4 (\<lambda>c. fmax (if isnan c \<or> isinf c then Finite 0 else c) (Finite 0))
            (fst (CS_scatteringAndExtinction USE_TEMPORAL_REPROJECTION e gridCoordinate)) \<and>
      (\<forall>c \<in> set_vec4 v. \<exists>r. c = Finite r \<and> 0 \<le> r))"
proof -
  obtain sae samples where
    s: "CS_scatteringAndExtinction USE_TEMPORAL_REPROJECTION e gridCoordinate = (sae, samples)"
    by (cases "CS_scatteringAndExtinction USE_TEMPORAL_REPROJECTION e gridCoordinate")
  have fin: "\<forall>c \<in> set_vec4 (map_vec4
                 (\<lambda>c. fmax (if isnan c \<or> isinf c then Finite 0 else c) (Finite 0)) sae).
               \<exists>r. c = Finite r \<and> 0 \<le> r"
    using sanitized_component by (auto simp: vec4.set_map)
  show ?thesis
    using fin by (simp add: CS_LightScattering_def s vec4.map_comp comp_def)
qed

lemma sample_loop_step:
  "i < n \<Longrightarrow>
   sample_loop body n i s = sample_loop body n (i + 1) (body i (fst s), snd s @ [i])"
  by (subst sample_loop.simps) simp

lemma sample_loop_done:
  "\<not> i < n \<Longrightarrow> sample_loop body n i s = s"
  by (subst sample_loop.simps) simp

lemma fog_frame_alpha_miss: "history_alpha fog_frame (Vec3 0 y z) = Finite 0"
  by (simp add: history_alpha_def fog_frame_def)

lemma fog_frame_alpha_hit: "history_alpha fog_frame (Vec3 1 y z) = Finite (7 / 8)"
  by (simp add: history_alpha_def fog_frame_def)

lemma fog_frame_count_miss: "CS_numSuperSamples True fog_frame (Vec3 0 1 1) = 4"
  by (simp add: CS_numSuperSamples_def fog_frame_alpha_miss lit_0_001_def)
     (simp add: fog_frame_def)

lemma fog_frame_count_hit: "CS_numSuperSamples True fog_frame (Vec3 1 1 1) = 1"
  by (simp add: CS_numSuperSamples_def fog_frame_alpha_hit lit_0_001_def)

lemma fog_frame_count_outside: "CS_numSuperSamples True fog_frame (Vec3 0 1 2) = 1"
  by (simp add: CS_numSuperSamples_def fog_frame_alpha_miss lit_0_001_def)
     (simp add: fog_frame_def)

lemma fog_frame_loop4:
  "sample_loop (cs_sample fog_frame g) 4 0 (Vec3 (Finite 0) (Finite 0) (Finite 0), []) =
     (Vec3 (Finite 4) (Finite 0) (Finite 0), [0, 1, 2, 3])"
  by (simp add: sample_loop_step sample_loop_done fog_frame_def)

lemma fog_frame_loop1:
  "sample_loop (cs_sample fog_frame g) 1 0 (Vec3 (Finite 0) (Finite 0) (Finite 0), []) =
     (Vec3 (Finite 1) (Finite 0) (Finite 0), [0])"
  by (simp add: sample_loop_step sample_loop_done fog_frame_def)

lemma fog_frame_miss:
  "CS_scatteringAndExtinction True fog_frame (Vec3 0 1 1) =
     (Vec4 NaN PosInf (Finite (- 2)) (Finite 4), [0, 1, 2, 3])"
  by (simp add: CS_scatteringAndExtinction_def fog_frame_count_miss fog_frame_loop4
      fog_frame_alpha_miss)
     (simp add: fog_frame_def)

lemma fog_frame_hit:
  "CS_scatteringAndExtinction True fog_frame (Vec3 1 1 1) =
     (Vec4 (Finite 7) (Finite 7) (Finite 7) (Finite 7), [0])"
  by (simp add: CS_scatteringAndExtinction_def fog_frame_count_hit fog_frame_loop1
      fog_frame_alpha_hit)
     (simp add: fog_frame_def)

lemma fog_frame_outside:
  "CS_scatteringAndExtinction True fog_frame (Vec3 0 1 2) =
     (Vec4 NaN PosInf (Finite (- 2)) (Finite 1), [0])"
  by (simp add: CS_scatteringAndExtinction_def fog_frame_count_outside fog_frame_loop1
      fog_frame_alpha_miss)
     (simp add: fog_frame_def)

theorem CS_LightScattering_stores_finite_nonnegative_witness:
  "fst (CS_scatteringAndExtinction True fog_frame (Vec3 0 1 1)) =
     Vec4 NaN PosInf (Finite (- 2)) (Finite 4) \<and>
   all3 (less3 (Vec3 0 1 1) (GridSizeInt fog_frame)) \<and>
   fst (CS_LightScattering True fog_frame (Vec3 0 1 1)) =
     Some (Vec3 0 1 1, Vec4 (Finite 0) (Finite 0) (Finite 0) (Finite 4)) \<and>
   \<not> all3 (less3 (Vec3 0 1 2) (GridSizeInt fog_frame)) \<and>
   fst (CS_LightScattering True fog_frame (Vec3 0 1 2)) = None"
proof -
  have inside: "all3 (less3 (Vec3 0 1 1) (GridSizeInt fog_frame))"
    by (simp add: fog_frame_def)
  have outside: "\<not> all3 (less3 (Vec3 0 1 2) (GridSizeInt fog_frame))"
    by (simp add: fog_frame_def)
  note here = CS_LightScattering_stores_finite_nonnegative [of True fog_frame "Vec3 0 1 1"]
  from here inside obtain s where
    s: "fst (CS_LightScattering True fog_frame (Vec3 0 1 1)) = Some s"
    by blast
  obtain coordinate v where cv: "s = (coordinate, v)"
    by (cases s)
  from here s cv have "coordinate = Vec3 0 1 1"
    and "v = map_vec4 (\<lambda>c. fmax (if isnan c \<or> isinf c then Finite 0 else c) (Finite 0))
           (fst (CS_scatteringAndExtinction True fog_frame (Vec3 0 1 1)))"
    by blast+
  with s cv have stored: "fst (CS_LightScattering True fog_frame (Vec3 0 1 1)) =
      Some (Vec3 0 1 1, Vec4 (Finite 0) (Finite 0) (Finite 0) (Finite 4))"
    by (simp add: fog_frame_miss)
  from CS_LightScattering_stores_finite_nonnegative [of True fog_frame "Vec3 0 1 2"] outside
  have "fst (CS_LightScattering True fog_frame (Vec3 0 1 2)) = None"
    by blast
  with inside outside stored show ?thesis
    by (simp add: fog_frame_miss)
qed

lemma lit_0_001_positive: "flt (Finite 0) lit_0_001"
  by (simp add: lit_0_001_def)

lemma history_alpha_ignores_history:
  "history_alpha (e\<lparr>history_sample := h, lerp := l\<rparr>) g = history_alpha e g"
  by (simp add: history_alpha_def)

lemma CS_LightScattering_samples:
  "snd (CS_LightScattering T e g) =
     map word_of_nat [0..<unat (CS_numSuperSamples T e g)]"
  by (simp add: CS_LightScattering_def CS_scatteringAndExtinction_def Let_def sample_loop_fold
      split: prod.splits)

lemma PS_InjectLight_outside:
  "\<not> all3 (less3 g (GridSizeInt e)) \<Longrightarrow>
   PS_InjectLight T e g = (Vec4 (Finite 0) (Finite 0) (Finite 0) (Finite 0), [])"
  by (simp add: PS_InjectLight_def)

lemma PS_InjectLight_inside:
  "all3 (less3 g (GridSizeInt e)) \<Longrightarrow>
   PS_InjectLight True e g =
     (let n = (if flt (history_alpha e g) lit_0_001 then HistoryMissSuperSampleCount e else 1)
      in (ps_normalize e
            (fold (ps_sample e g) (map word_of_nat [0..<unat n])
               (Vec4 (Finite 0) (Finite 0) (Finite 0) (Finite 0))) n,
          map word_of_nat [0..<unat n]))"
  by (simp add: PS_InjectLight_def Let_def sample_loop_fold)

lemma one_sample: "map word_of_nat [0..<unat (1 :: uint)] = [0 :: uint]"
  by simp

text \<open>
  Claim C3. With temporal reprojection compiled in, let some component of the
  reprojected history UV of a voxel be below 0 or above 1. Then \<^verbatim>\<open>historyAlpha\<close> is 0;
  \<^verbatim>\<open>CS_LightScattering\<close> blends no history: its \<^verbatim>\<open>scatteringAndExtinction\<close> is what the
  material gives for the normalised samples, and neither the history texture nor
  \<^verbatim>\<open>lerp\<close> has any influence on the pass; and for a voxel inside the grid both
  \<^verbatim>\<open>CS_LightScattering\<close> and \<^verbatim>\<open>PS_InjectLight\<close> take the samples
  \<open>0, \<dots>, HistoryMissSuperSampleCount - 1\<close>, that is \<^verbatim>\<open>HistoryMissSuperSampleCount\<close> of
  them, and their results are those samples accumulated from zero and normalised by
  \<^verbatim>\<open>HistoryMissSuperSampleCount\<close>. When no component of the history UV is below 0 or
  above 1, \<^verbatim>\<open>historyAlpha\<close> is \<^verbatim>\<open>HistoryWeight\<close>, and unless that is below \<^verbatim>\<open>0.001f\<close> both
  passes take the one sample \<open>0\<close>. Outside the grid \<^verbatim>\<open>PS_InjectLight\<close> takes no sample and
  returns 0.
\<close>

theorem history_miss_drops_history_and_supersamples:
  "(any3 (map_vec3 (\<lambda>c. flt c (Finite 0)) (history_uv e gridCoordinate))
    \<or> any3 (map_vec3 (\<lambda>c. flt (Finite 1) c) (history_uv e gridCoordinate)) \<longrightarrow>
      history_alpha e gridCoordinate = Finite 0 \<and>
      fst (CS_scatteringAndExtinction True e gridCoordinate) =
        cs_material e gridCoordinate
          (cs_normalize e
             (fold (cs_sample e gridCoordinate)
                (snd (CS_scatteringAndExtinction True e gridCoordinate))
                (Vec3 (Finite 0) (Finite 0) (Finite 0)))
             (CS_numSuperSamples True e gridCoordinate)) \<and>
      (\<forall>h l. CS_LightScattering True (e\<lparr>history_sample := h, lerp := l\<rparr>) gridCoordinate =
              CS_LightScattering True e gridCoordinate) \<and>
      (all3 (less3 gridCoordinate (GridSizeInt e)) \<longrightarrow>
         snd (CS_LightScattering True e gridCoordinate) =
           map word_of_nat [0..<unat (HistoryMissSuperSampleCount e)] \<and>
         snd (PS_InjectLight True e gridCoordinate) =
           map word_of_nat [0..<unat (HistoryMissSuperSampleCount e)] \<and>
         CS_scatteringAndExtinction True e gridCoordinate =
           (cs_material e gridCoordinate
              (cs_normalize e
                 (fold (cs_sample e gridCoordinate)
                    (map word_of_nat [0..<unat (HistoryMissSuperSampleCount e)])
                    (Vec3 (Finite 0) (Finite 0) (Finite 0)))
                 (HistoryMissSuperSampleCount e)),
            map word_of_nat [0..<unat (HistoryMissSuperSampleCount e)]) \<and>
         PS_InjectLight True e gridCoordinate =
           (ps_normalize e
              (fold (ps_sample e gridCoordinate)
                 (map word_of_nat [0..<unat (HistoryMissSuperSampleCount e)])
                 (Vec4 (Finite 0) (Finite 0) (Finite 0) (Finite 0)))
              (HistoryMissSuperSampleCount e),
            map word_of_nat [0..<unat (HistoryMissSuperSampleCount e)]))) \<and>
   (\<not> (any3 (map_vec3 (\<lambda>c. flt c (Finite 0)) (history_uv e gridCoordinate))
        \<or> any3 (map_vec3 (\<lambda>c. flt (Finite 1) c) (history_uv e gridCoordinate))) \<longrightarrow>
      history_alpha e gridCoordinate = HistoryWeight e \<and>
      (\<not> flt (HistoryWeight e) lit_0_001 \<longrightarrow>
         snd (CS_LightScattering True e gridCoordinate) = [0] \<and>
         (all3 (less3 gridCoordinate (GridSizeInt e)) \<longrightarrow>
            PS_InjectLight True e gridCoordinate =
              (ps_normalize e
                 (ps_sample e gridCoordinate 0 (Vec4 (Finite 0) (Finite 0) (Finite 0) (Finite 0)))
                 1,
               [0])))) \<and>
   (\<not> all3 (less3 gridCoordinate (GridSizeInt e)) \<longrightarrow>
      PS_InjectLight True e gridCoordinate =
        (Vec4 (Finite 0) (Finite 0) (Finite 0) (Finite 0), []))"
proof (intro conjI impI)
  assume miss: "any3 (map_vec3 (\<lambda>c. flt c (Finite 0)) (history_uv e gridCoordinate))
           \<or> any3 (map_vec3 (\<lambda>c. flt (Finite 1) c) (history_uv e gridCoordinate))"
  then show alpha: "history_alpha e gridCoordinate = Finite 0"
    by (simp add: history_alpha_def)
  show "fst (CS_scatteringAndExtinction True e gridCoordinate) =
           cs_material e gridCoordinate
             (cs_normalize e
                (fold (cs_sample e gridCoordinate)
                   (snd (CS_scatteringAndExtinction True e gridCoordinate))
                   (Vec3 (Finite 0) (Finite 0) (Finite 0)))
                (CS_numSuperSamples True e gridCoordinate))"
    by (simp add: CS_scatteringAndExtinction_def Let_def sample_loop_fold alpha)
  show "\<forall>h l. CS_LightScattering True (e\<lparr>history_sample := h, lerp := l\<rparr>) gridCoordinate =
                 CS_LightScattering True e gridCoordinate"
    by (simp add: CS_LightScattering_def CS_scatteringAndExtinction_def CS_numSuperSamples_def
        Let_def history_alpha_ignores_history alpha lit_0_001_positive)
  assume inside: "all3 (less3 gridCoordinate (GridSizeInt e))"
  have count: "CS_numSuperSamples True e gridCoordinate = HistoryMissSuperSampleCount e"
    using inside by (simp add: CS_numSuperSamples_def alpha lit_0_001_positive)
  show "snd (CS_LightScattering True e gridCoordinate) =
          map word_of_nat [0..<unat (HistoryMissSuperSampleCount e)]"
    by (simp add: CS_LightScattering_samples count)
  show ps: "PS_InjectLight True e gridCoordinate =
           (ps_normalize e
              (fold (ps_sample e gridCoordinate)
                 (map word_of_nat [0..<unat (HistoryMissSuperSampleCount e)])
                 (Vec4 (Finite 0) (Finite 0) (Finite 0) (Finite 0)))
              (HistoryMissSuperSampleCount e),
            map word_of_nat [0..<unat (HistoryMissSuperSampleCount e)])"
    by (simp add: PS_InjectLight_inside [OF inside] alpha lit_0_001_positive Let_def)
  then show "snd (PS_InjectLight True e gridCoordinate) =
          map word_of_nat [0..<unat (HistoryMissSuperSampleCount e)]"
    by simp
  show "CS_scatteringAndExtinction True e gridCoordinate =
           (cs_material e gridCoordinate
              (cs_normalize e
                 (fold (cs_sample e gridCoordinate)
                    (map word_of_nat [0..<unat (HistoryMissSuperSampleCount e)])
                    (Vec3 (Finite 0) (Finite 0) (Finite 0)))
                 (HistoryMissSuperSampleCount e)),
            map word_of_nat [0..<unat (HistoryMissSuperSampleCount e)])"
    by (simp add: CS_scatteringAndExtinction_def Let_def sample_loop_fold alpha count)
next
  assume hit: "\<not> (any3 (map_vec3 (\<lambda>c. flt c (Finite 0)) (history_uv e gridCoordinate))
        \<or> any3 (map_vec3 (\<lambda>c. flt (Finite 1) c) (history_uv e gridCoordinate)))"
  then show alpha: "history_alpha e gridCoordinate = HistoryWeight e"
    by (simp add: history_alpha_def)
  assume weight: "\<not> flt (HistoryWeight e) lit_0_001"
  have "CS_numSuperSamples True e gridCoordinate = 1"
    using weight by (simp add: CS_numSuperSamples_def alpha)
  then show "snd (CS_LightScattering True e gridCoordinate) = [0]"
    by (simp add: CS_LightScattering_samples)
  assume inside: "all3 (less3 gridCoordinate (GridSizeInt e))"
  show "PS_InjectLight True e gridCoordinate =
              (ps_normalize e
                 (ps_sample e gridCoordinate 0 (Vec4 (Finite 0) (Finite 0) (Finite 0) (Finite 0)))
                 1,
               [0])"
    using weight by (simp add: PS_InjectLight_inside [OF inside] alpha Let_def)
next
  assume "\<not> all3 (less3 gridCoordinate (GridSizeInt e))"
  then show "PS_InjectLight True e gridCoordinate =
        (Vec4 (Finite 0) (Finite 0) (Finite 0) (Finite 0), [])"
    by (rule PS_InjectLight_outside)
qed

lemma fog_frame_inject_loop4:
  "sample_loop (ps_sample fog_frame g) 4 0
          (Vec4 (Finite 0) (Finite 0) (Finite 0) (Finite 0), []) =
        (Vec4 (Finite 4) (Finite 0) (Finite 0) (Finite 0), [0, 1, 2, 3])"
  by (simp add: sample_loop_step sample_loop_done fog_frame_def)

lemma fog_frame_inject_loop1:
  "sample_loop (ps_sample fog_frame g) 1 0
          (Vec4 (Finite 0) (Finite 0) (Finite 0) (Finite 0), []) =
        (Vec4 (Finite 1) (Finite 0) (Finite 0) (Finite 0), [0])"
  by (simp add: sample_loop_step sample_loop_done fog_frame_def)

lemma fog_frame_inject:
  "PS_InjectLight True fog_frame (Vec3 0 1 1) =
     (Vec4 (Finite 4) (Finite 0) (Finite 0) (Finite 4), [0, 1, 2, 3])"
proof -
  have "HistoryMissSuperSampleCount fog_frame = 4"
    and "all3 (less3 (Vec3 0 1 1) (GridSizeInt fog_frame))"
    and "ps_normalize fog_frame =
           (\<lambda>v n. case v of Vec4 r g b a \<Rightarrow> Vec4 r g b (Finite (real (unat n))))"
    by (simp_all add: fog_frame_def)
  then show ?thesis
    by (simp add: PS_InjectLight_def fog_frame_alpha_miss lit_0_001_positive
        fog_frame_inject_loop4)
qed

lemma fog_frame_inject_hit:
  "PS_InjectLight True fog_frame (Vec3 1 1 1) =
     (Vec4 (Finite 1) (Finite 0) (Finite 0) (Finite 1), [0])"
proof -
  have "all3 (less3 (Vec3 1 1 1) (GridSizeInt fog_frame))"
    and "ps_normalize fog_frame =
           (\<lambda>v n. case v of Vec4 r g b a \<Rightarrow> Vec4 r g b (Finite (real (unat n))))"
    by (simp_all add: fog_frame_def)
  then show ?thesis
    by (simp add: PS_InjectLight_def fog_frame_alpha_hit lit_0_001_def
        fog_frame_inject_loop1)
qed

theorem history_miss_drops_history_and_supersamples_witness:
  "history_uv fog_frame (Vec3 0 1 1) = Vec3 (Finite (- 1 / 8)) (Finite (1 / 2)) (Finite (1 / 2)) \<and>
   history_uv fog_frame (Vec3 1 1 1) = Vec3 (Finite (1 / 2)) (Finite (1 / 2)) (Finite (1 / 2)) \<and>
   all3 (less3 (Vec3 0 1 1) (GridSizeInt fog_frame)) \<and>
   all3 (less3 (Vec3 1 1 1) (GridSizeInt fog_frame)) \<and>
   \<not> all3 (less3 (Vec3 0 1 2) (GridSizeInt fog_frame)) \<and>
   HistoryMissSuperSampleCount fog_frame = 4 \<and>
   \<not> flt (HistoryWeight fog_frame) lit_0_001 \<and>
   history_alpha fog_frame (Vec3 0 1 1) = Finite 0 \<and>
   CS_LightScattering True fog_frame (Vec3 0 1 1) =
     (Some (Vec3 0 1 1, Vec4 (Finite 0) (Finite 0) (Finite 0) (Finite 4)), [0, 1, 2, 3]) \<and>
   PS_InjectLight True fog_frame (Vec3 0 1 1) =
     (Vec4 (Finite 4) (Finite 0) (Finite 0) (Finite 4), [0, 1, 2, 3]) \<and>
   snd (CS_LightScattering True fog_frame (Vec3 0 1 1)) =
     map word_of_nat [0..<unat (HistoryMissSuperSampleCount fog_frame)] \<and>
   PS_InjectLight True fog_frame (Vec3 0 1 1) =
     (ps_normalize fog_frame
        (fold (ps_sample fog_frame (Vec3 0 1 1))
           (map word_of_nat [0..<unat (HistoryMissSuperSampleCount fog_frame)])
           (Vec4 (Finite 0) (Finite 0) (Finite 0) (Finite 0)))
        (HistoryMissSuperSampleCount fog_frame),
      map word_of_nat [0..<unat (HistoryMissSuperSampleCount fog_frame)]) \<and>
   history_alpha fog_frame (Vec3 1 1 1) = HistoryWeight fog_frame \<and>
   CS_LightScattering True fog_frame (Vec3 1 1 1) =
     (Some (Vec3 1 1 1, Vec4 (Finite 7) (Finite 7) (Finite 7) (Finite 7)), [0]) \<and>
   PS_InjectLight True fog_frame (Vec3 1 1 1) =
     (Vec4 (Finite 1) (Finite 0) (Finite 0) (Finite 1), [0]) \<and>
   PS_InjectLight True fog_frame (Vec3 0 1 2) =
     (Vec4 (Finite 0) (Finite 0) (Finite 0) (Finite 0), [])"
proof -
  have uv: "history_uv fog_frame (Vec3 0 1 1) =
              Vec3 (Finite (- 1 / 8)) (Finite (1 / 2)) (Finite (1 / 2))"
    and uv': "history_uv fog_frame (Vec3 1 1 1) =
              Vec3 (Finite (1 / 2)) (Finite (1 / 2)) (Finite (1 / 2))"
    by (simp_all add: fog_frame_def)
  from uv have miss: "any3 (map_vec3 (\<lambda>c. flt c (Finite 0)) (history_uv fog_frame (Vec3 0 1 1)))
           \<or> any3 (map_vec3 (\<lambda>c. flt (Finite 1) c) (history_uv fog_frame (Vec3 0 1 1)))"
    by simp
  from uv' have hit: "\<not> (any3 (map_vec3 (\<lambda>c. flt c (Finite 0)) (history_uv fog_frame (Vec3 1 1 1)))
           \<or> any3 (map_vec3 (\<lambda>c. flt (Finite 1) c) (history_uv fog_frame (Vec3 1 1 1))))"
    by simp
  have inside: "all3 (less3 (Vec3 0 1 1) (GridSizeInt fog_frame))"
    and inside': "all3 (less3 (Vec3 1 1 1) (GridSizeInt fog_frame))"
    and outside: "\<not> all3 (less3 (Vec3 0 1 2) (GridSizeInt fog_frame))"
    and n: "HistoryMissSuperSampleCount fog_frame = 4"
    and weight: "\<not> flt (HistoryWeight fog_frame) lit_0_001"
    by (simp_all add: fog_frame_def lit_0_001_def)
  note at_miss = history_miss_drops_history_and_supersamples [of fog_frame "Vec3 0 1 1"]
  note at_hit = history_miss_drops_history_and_supersamples [of fog_frame "Vec3 1 1 1"]
  note at_out = history_miss_drops_history_and_supersamples [of fog_frame "Vec3 0 1 2"]
  from at_miss miss have alpha: "history_alpha fog_frame (Vec3 0 1 1) = Finite 0"
    by blast
  from at_miss miss inside have samples:
    "snd (CS_LightScattering True fog_frame (Vec3 0 1 1)) =
       map word_of_nat [0..<unat (HistoryMissSuperSampleCount fog_frame)]"
    "PS_InjectLight True fog_frame (Vec3 0 1 1) =
     (ps_normalize fog_frame
        (fold (ps_sample fog_frame (Vec3 0 1 1))
           (map word_of_nat [0..<unat (HistoryMissSuperSampleCount fog_frame)])
           (Vec4 (Finite 0) (Finite 0) (Finite 0) (Finite 0)))
        (HistoryMissSuperSampleCount fog_frame),
      map word_of_nat [0..<unat (HistoryMissSuperSampleCount fog_frame)])"
    by blast+
  from at_hit hit have alpha': "history_alpha fog_frame (Vec3 1 1 1) = HistoryWeight fog_frame"
    by blast
  from at_out outside have out: "PS_InjectLight True fog_frame (Vec3 0 1 2) =
     (Vec4 (Finite 0) (Finite 0) (Finite 0) (Finite 0), [])"
    by blast
  have cs: "CS_LightScattering True fog_frame (Vec3 0 1 1) =
     (Some (Vec3 0 1 1, Vec4 (Finite 0) (Finite 0) (Finite 0) (Finite 4)), [0, 1, 2, 3])"
    using inside by (simp add: CS_LightScattering_def fog_frame_miss)
  have cs': "CS_LightScattering True fog_frame (Vec3 1 1 1) =
     (Some (Vec3 1 1 1, Vec4 (Finite 7) (Finite 7) (Finite 7) (Finite 7)), [0])"
    using inside' by (simp add: CS_LightScattering_def fog_frame_hit)
  show ?thesis
    apply (intro conjI)
    using uv uv' inside inside' outside n weight alpha samples alpha' out cs cs'
      fog_frame_inject fog_frame_inject_hit
    by (assumption | simp only:)+
qed

section \<open>The final integration pass: results\<close>

lemma integrate_layer_integrated:
  "integrate_layer ops fr (Vec3 x y i)
     (integrated ops (\<lambda>k. LightScattering fr (Vec3 x y (word_of_nat k)))
        (step_from_camera ops fr x y) (unat i),
      if unat i = 0 then ViewPos fr else cell_centre fr (Vec3 x y (word_of_nat (unat i - 1)))) =
   (integrated ops (\<lambda>k. LightScattering fr (Vec3 x y (word_of_nat k)))
        (step_from_camera ops fr x y) (Suc (unat i)),
    cell_centre fr (Vec3 x y i))"
proof -
  have step: "step_from_camera ops fr x y (unat i) =
                f_length ops (zip3 (f_sub ops) (cell_centre fr (Vec3 x y i))
                  (if unat i = 0 then ViewPos fr
                   else cell_centre fr (Vec3 x y (word_of_nat (unat i - 1)))))"
    by (auto simp: step_from_camera_def unat_eq_0)
  show ?thesis
    by (simp add: integrate_layer_def Let_def step)
qed

lemma CS_FinalIntegration_loop_stores:
  assumes "fst st = (integrated ops (\<lambda>k. LightScattering fr (Vec3 x y (word_of_nat k)))
                       (step_from_camera ops fr x y) (unat i),
                     if unat i = 0 then ViewPos fr
                     else cell_centre fr (Vec3 x y (word_of_nat (unat i - 1))))"
  shows "snd (CS_FinalIntegration_loop ops fr x y i st) =
           snd st @ map (\<lambda>k. (Vec3 x y (word_of_nat k),
                            integrated ops (\<lambda>k. LightScattering fr (Vec3 x y (word_of_nat k)))
                              (step_from_camera ops fr x y) (Suc k)))
                      [unat i..<unat (GridSizeInt_z fr)]"
  using assms
proof (induction ops fr x y i st rule: CS_FinalIntegration_loop.induct)
  case (1 ops fr x y layerIndex st)
  let ?sl = "\<lambda>k. LightScattering fr (Vec3 x y (word_of_nat k))"
  let ?acc = "integrated ops ?sl (step_from_camera ops fr x y)"
  show ?case
  proof (cases "layerIndex < GridSizeInt_z fr")
    case True
    then have lt: "unat layerIndex < unat (GridSizeInt_z fr)"
      by (simp add: word_less_nat_alt)
    have inc: "unat (layerIndex + 1) = Suc (unat layerIndex)"
      using unat_inc_below [OF True] by simp
    define s where "s = integrate_layer ops fr (Vec3 x y layerIndex) (fst st)"
    have s: "s = (?acc (Suc (unat layerIndex)), cell_centre fr (Vec3 x y layerIndex))"
      unfolding s_def "1.prems"
      by (rule integrate_layer_integrated)
    have "snd (CS_FinalIntegration_loop ops fr x y layerIndex st) =
            snd (CS_FinalIntegration_loop ops fr x y (layerIndex + 1)
                   (s, snd st @ [(Vec3 x y layerIndex, fst s)]))"
      using True by (subst CS_FinalIntegration_loop.simps) (simp add: Let_def s_def)
    also have "\<dots> = (snd st @ [(Vec3 x y layerIndex, fst s)])
                     @ map (\<lambda>k. (Vec3 x y (word_of_nat k), ?acc (Suc k)))
                         [unat (layerIndex + 1)..<unat (GridSizeInt_z fr)]"
    proof -
      have "fst (s, snd st @ [(Vec3 x y layerIndex, fst s)]) =
              (?acc (unat (layerIndex + 1)),
               if unat (layerIndex + 1) = 0 then ViewPos fr
               else cell_centre fr (Vec3 x y (word_of_nat (unat (layerIndex + 1) - 1))))"
        by (simp add: s inc del: integrated.simps)
      from "1.IH" [OF True refl refl, folded s_def, OF this] show ?thesis
        by simp
    qed
    also have "\<dots> = snd st @ map (\<lambda>k. (Vec3 x y (word_of_nat k), ?acc (Suc k)))
                               [unat layerIndex..<unat (GridSizeInt_z fr)]"
      using lt by (simp add: inc upt_conv_Cons s del: integrated.simps)
    finally show ?thesis .
  next
    case False
    then have "unat (GridSizeInt_z fr) \<le> unat layerIndex"
      by (simp add: word_less_nat_alt)
    with False show ?thesis
      by (subst CS_FinalIntegration_loop.simps) simp
  qed
qed

lemma CS_FinalIntegration_column:
  "CS_FinalIntegration ops fr x y = integrated_column ops fr (step_from_camera ops fr x y) x y"
proof -
  have "snd (CS_FinalIntegration_loop ops fr x y 0
               ((Vec4 (f_zero ops) (f_zero ops) (f_zero ops) (f_one ops), ViewPos fr), [])) =
        snd ((Vec4 (f_zero ops) (f_zero ops) (f_zero ops) (f_one ops), ViewPos fr), [])
        @ map (\<lambda>k. (Vec3 x y (word_of_nat k),
                 integrated ops (\<lambda>k. LightScattering fr (Vec3 x y (word_of_nat k)))
                   (step_from_camera ops fr x y) (Suc k)))
            [unat (0 :: uint)..<unat (GridSizeInt_z fr)]"
    by (rule CS_FinalIntegration_loop_stores) simp
  then show ?thesis
    by (simp add: CS_FinalIntegration_def integrated_column_def del: integrated.simps)
qed

lemma two_slices_steps:
  "step_from_camera real_ops two_slices 0 0 0 = 1"
  "step_from_camera real_ops two_slices 0 0 (Suc 0) = 2"
  "step_between_centres real_ops two_slices 0 0 0 = 2"
  "step_between_centres real_ops two_slices 0 0 (Suc 0) = 2"
  by (simp_all add: step_from_camera_def step_between_centres_def real_ops_def two_slices_def)

lemma two_slices_range: "[0..<unat (GridSizeInt_z two_slices)] = [0, Suc 0]"
  by (simp add: two_slices_def upt_conv_Cons)

lemma two_slices_transmittance:
  "map (\<lambda>s. alpha (snd s)) (CS_FinalIntegration real_ops two_slices 0 0) = [exp (- 1), exp (- 3)]"
  unfolding CS_FinalIntegration_column integrated_column_def two_slices_range
  by (simp add: two_slices_steps Let_def)
     (simp add: real_ops_def two_slices_def mult_exp_exp)

lemma two_slices_colour:
  "map (\<lambda>s. rgb (snd s)) (CS_FinalIntegration real_ops two_slices 0 0) =
     [Vec3 (1 - exp (- 1)) 0 0, Vec3 (1 - exp (- 1) + (1 - exp (- 2)) * exp (- 1)) 0 0]"
  unfolding CS_FinalIntegration_column integrated_column_def two_slices_range
  by (simp add: two_slices_steps Let_def)
     (simp add: real_ops_def two_slices_def mult_exp_exp)

lemma two_slices_between_centres:
  "map (\<lambda>s. alpha (snd s))
     (integrated_column real_ops two_slices (step_between_centres real_ops two_slices 0 0) 0 0) =
     [exp (- 2), exp (- 4)]"
  unfolding integrated_column_def two_slices_range
  by (simp add: two_slices_steps Let_def)
     (simp add: real_ops_def two_slices_def mult_exp_exp)

text \<open>
  Claim C1, as the code has it. For every column \<open>(x, y)\<close> the pass stores one value per
  slice, for the slices \<open>0, 1, \<dots>, GridSizeInt.z - 1\<close> in this order, and the value stored
  for a slice is the colour and transmittance accumulated front to back up to and
  including it by the energy-conserving step: with scattering \<open>S\<close> and extinction \<open>\<sigma>\<close>,
  \<open>T = exp (- \<sigma> * stepLength)\<close>, the colour grows by \<open>(S - S * T) / max \<sigma> 0.00001\<close> times
  the accumulated transmittance, and the accumulated transmittance is then multiplied by
  \<open>T\<close>. The step length of a slice after the first is the distance between its centre and
  the centre of the slice before it; the step length of the first slice is the distance
  between its centre and the camera position \<^verbatim>\<open>GBuffer.ViewPos\<close>.
\<close>

theorem CS_FinalIntegration_integrates_front_to_back:
  "CS_FinalIntegration ops fr x y =
     map (\<lambda>k. (Vec3 x y (word_of_nat k),
               integrated ops (\<lambda>k. LightScattering fr (Vec3 x y (word_of_nat k)))
                 (step_from_camera ops fr x y) (Suc k)))
       [0..<unat (GridSizeInt_z fr)] \<and>
   step_from_camera ops fr x y 0 =
     f_length ops (zip3 (f_sub ops) (cell_centre fr (Vec3 x y 0)) (ViewPos fr)) \<and>
   step_from_camera ops fr x y (Suc k) =
     f_length ops (zip3 (f_sub ops) (cell_centre fr (Vec3 x y (word_of_nat (Suc k))))
                     (cell_centre fr (Vec3 x y (word_of_nat k))))"
proof -
  have "CS_FinalIntegration ops fr x y =
          integrated_column ops fr (step_from_camera ops fr x y) x y"
    by (rule CS_FinalIntegration_column)
  then show ?thesis
    by (simp add: integrated_column_def step_from_camera_def del: integrated.simps)
qed

theorem CS_FinalIntegration_integrates_front_to_back_witness:
  "map fst (CS_FinalIntegration real_ops two_slices 0 0) = [Vec3 0 0 0, Vec3 0 0 1] \<and>
   map (\<lambda>s. rgb (snd s)) (CS_FinalIntegration real_ops two_slices 0 0) =
     [Vec3 (1 - exp (- 1)) 0 0, Vec3 (1 - exp (- 1) + (1 - exp (- 2)) * exp (- 1)) 0 0] \<and>
   map (\<lambda>s. alpha (snd s)) (CS_FinalIntegration real_ops two_slices 0 0) =
     [exp (- 1), exp (- 3)] \<and>
   step_from_camera real_ops two_slices 0 0 0 = 1 \<and>
   step_from_camera real_ops two_slices 0 0 (Suc 0) = 2"
proof -
  from CS_FinalIntegration_integrates_front_to_back [of real_ops two_slices 0 0 0]
  have "map fst (CS_FinalIntegration real_ops two_slices 0 0) =
          map word_of_nat_vec [0..<unat (GridSizeInt_z two_slices)]"
    if "word_of_nat_vec = (\<lambda>k. Vec3 (0 :: uint) (0 :: uint) (word_of_nat k :: uint))"
    for word_of_nat_vec
    using that by (simp add: comp_def del: integrated.simps)
  then have "map fst (CS_FinalIntegration real_ops two_slices 0 0) = [Vec3 0 0 0, Vec3 0 0 1]"
    by (simp add: two_slices_range)
  with two_slices_colour two_slices_transmittance two_slices_steps show ?thesis
    by simp
qed

text \<open>
  The claim as the specification words it takes every step length between consecutive
  slice centres. On the frame \<open>two_slices\<close> the centres of the slices 0 and 1 are 2
  apart and the camera is 1 away from the centre of slice 0: the pass stores the
  transmittance \<open>exp (- 1)\<close> for slice 0, where steps between slice centres give
  \<open>exp (- 2)\<close>.
\<close>

theorem CS_FinalIntegration_first_step_from_camera:
  "map (\<lambda>s. alpha (snd s)) (CS_FinalIntegration real_ops two_slices 0 0) =
     [exp (- 1), exp (- 3)] \<and>
   map (\<lambda>s. alpha (snd s))
     (integrated_column real_ops two_slices (step_between_centres real_ops two_slices 0 0) 0 0) =
     [exp (- 2), exp (- 4)] \<and>
   CS_FinalIntegration real_ops two_slices 0 0 \<noteq>
     integrated_column real_ops two_slices (step_between_centres real_ops two_slices 0 0) 0 0"
proof -
  have "exp (- 1 :: real) \<noteq> exp (- 2)"
    by simp
  then have "CS_FinalIntegration real_ops two_slices 0 0 \<noteq>
     integrated_column real_ops two_slices (step_between_centres real_ops two_slices 0 0) 0 0"
    using two_slices_transmittance two_slices_between_centres by auto
  with two_slices_transmittance two_slices_between_centres show ?thesis
    by simp
qed

lemma alpha_float4: "alpha (float4 v a) = a"
  by (cases v) simp

lemma alpha_integrated_Suc:
  "alpha (integrated ops sl step (Suc k)) =
     f_mul ops (alpha (integrated ops sl step k))
       (f_exp ops (f_mul ops (f_neg ops (alpha (sl k))) (step k)))"
  by (simp add: Let_def alpha_float4)

lemma alpha_integrated_0: "alpha (integrated ops sl step 0) = f_one ops"
  by simp

lemma sound_rounding_factor:
  assumes "sound_rounding ops" and "0 \<le> s" and "0 \<le> l"
  shows "0 \<le> f_exp ops (f_mul ops (f_neg ops s) l) \<and> f_exp ops (f_mul ops (f_neg ops s) l) \<le> 1"
proof -
  from assms have "f_mul ops (f_neg ops s) l \<le> 0"
    unfolding sound_rounding_def by blast
  with assms(1) show ?thesis
    unfolding sound_rounding_def by blast
qed

lemma sound_rounding_mul:
  assumes "sound_rounding ops" and "0 \<le> a" and "0 \<le> t" and "t \<le> 1"
  shows "0 \<le> f_mul ops a t \<and> f_mul ops a t \<le> a"
  using assms unfolding sound_rounding_def by blast

lemma integrated_alpha_bounds:
  assumes "sound_rounding ops" and "\<forall>j < k. 0 \<le> alpha (sl j)" and "\<forall>j. 0 \<le> step j"
  shows "0 \<le> alpha (integrated ops sl step k) \<and> alpha (integrated ops sl step k) \<le> 1"
  using assms(2)
proof (induction k)
  case 0
  from assms(1) have "f_one ops = 1" unfolding sound_rounding_def by blast
  then show ?case by simp
next
  case (Suc k)
  from Suc have IH: "0 \<le> alpha (integrated ops sl step k)" "alpha (integrated ops sl step k) \<le> 1"
    and s: "0 \<le> alpha (sl k)"
    by simp_all
  from assms(3) have l: "0 \<le> step k" by blast
  note f = sound_rounding_factor [OF assms(1) s l]
  from sound_rounding_mul [OF assms(1) IH(1)] f IH(2) show ?case
    unfolding alpha_integrated_Suc by fastforce
qed

lemma integrated_alpha_positive:
  assumes "sound_rounding ops" and "no_underflow ops"
  shows "0 < alpha (integrated ops sl step k)"
proof (induction k)
  case 0
  from assms(1) have "f_one ops = 1" unfolding sound_rounding_def by blast
  then show ?case by simp
next
  case (Suc k)
  from assms(2) have "0 < f_exp ops (f_mul ops (f_neg ops (alpha (sl k))) (step k))"
    unfolding no_underflow_def by blast
  with Suc assms(2) show ?case
    unfolding alpha_integrated_Suc no_underflow_def by blast
qed

lemma step_from_camera_nonneg:
  "sound_rounding ops \<Longrightarrow> 0 \<le> step_from_camera ops fr x y k"
  unfolding sound_rounding_def step_from_camera_def by (cases "k = 0") simp_all

lemma CS_FinalIntegration_nth:
  assumes "k < unat (GridSizeInt_z fr)"
  shows "CS_FinalIntegration ops fr x y ! k =
           (Vec3 x y (word_of_nat k),
            integrated ops (\<lambda>k. LightScattering fr (Vec3 x y (word_of_nat k)))
              (step_from_camera ops fr x y) (Suc k))"
  using assms unfolding CS_FinalIntegration_column integrated_column_def
  by (simp del: integrated.simps)

lemma CS_FinalIntegration_length:
  "length (CS_FinalIntegration ops fr x y) = unat (GridSizeInt_z fr)"
  unfolding CS_FinalIntegration_column integrated_column_def by simp

lemma stored_transmittance_integrated:
  assumes "k < unat (GridSizeInt_z fr)"
  shows "stored_transmittance ops fr x y k =
           alpha (integrated ops (\<lambda>k. LightScattering fr (Vec3 x y (word_of_nat k)))
                    (step_from_camera ops fr x y) (Suc k))"
  unfolding stored_transmittance_def CS_FinalIntegration_nth [OF assms] by simp

lemma stored_transmittance_nth:
  "k < unat (GridSizeInt_z fr) \<Longrightarrow>
     stored_transmittance ops fr x y k =
       map (\<lambda>s. alpha (snd s)) (CS_FinalIntegration ops fr x y) ! k"
  by (simp add: stored_transmittance_def CS_FinalIntegration_length)

lemma previous_transmittance_integrated:
  assumes "k < unat (GridSizeInt_z fr)"
  shows "(if k = 0 then f_one ops else stored_transmittance ops fr x y (k - 1)) =
           alpha (integrated ops (\<lambda>k. LightScattering fr (Vec3 x y (word_of_nat k)))
                    (step_from_camera ops fr x y) k)"
proof (cases k)
  case 0
  then show ?thesis by simp
next
  case (Suc j)
  with assms have "j < unat (GridSizeInt_z fr)" by simp
  from stored_transmittance_integrated [OF this] Suc show ?thesis
    by (simp del: integrated.simps)
qed

lemma sound_rounding_real_ops: "sound_rounding real_ops"
  unfolding sound_rounding_def real_ops_def
  by (auto simp: mult_nonneg_nonpos2 mult_nonpos_nonneg mult_left_le split: vec3.splits)

lemma no_underflow_real_ops: "no_underflow real_ops"
  unfolding no_underflow_def real_ops_def by simp

lemma sound_rounding_underflow_ops: "sound_rounding underflow_ops"
  unfolding sound_rounding_def underflow_ops_def real_ops_def
  by (auto simp: mult_nonneg_nonpos2 mult_nonpos_nonneg mult_left_le split: vec3.splits)

lemma underflow_ops_underflows: "\<not> no_underflow underflow_ops"
proof -
  have "f_exp underflow_ops (- 1000) = 0"
    by (simp add: underflow_ops_def)
  then have "\<not> (\<forall>e. 0 < f_exp underflow_ops e)"
    by (metis less_irrefl)
  then show ?thesis
    unfolding no_underflow_def by blast
qed

lemma dense_slices_range: "[0..<unat (GridSizeInt_z dense_slices)] = [0, Suc 0]"
  by (simp add: dense_slices_def two_slices_def upt_conv_Cons)

lemma dense_slices_steps:
  "step_from_camera underflow_ops dense_slices 0 0 0 = 1"
  "step_from_camera underflow_ops dense_slices 0 0 (Suc 0) = 2"
  by (simp_all add: step_from_camera_def underflow_ops_def real_ops_def dense_slices_def
      two_slices_def)

lemma dense_slices_transmittance:
  "map (\<lambda>s. alpha (snd s)) (CS_FinalIntegration underflow_ops dense_slices 0 0) = [0, 0]"
  unfolding CS_FinalIntegration_column integrated_column_def dense_slices_range
  by (simp add: dense_slices_steps Let_def alpha_float4)
     (simp add: underflow_ops_def real_ops_def dense_slices_def two_slices_def)

text \<open>
  Claim C2, as the code has it. In a column \<open>(x, y)\<close> whose slices all have non-negative
  extinction, the alpha channel stored for slice \<open>k\<close> is the one stored for the slice before
  it (1 for the first slice) times the factor \<open>exp (- \<sigma> * stepLength)\<close> of slice \<open>k\<close>. In
  an arithmetic that is sound for the transmittance the factor lies in \<open>[0, 1]\<close>, and the
  alpha stored lies in \<open>[0, 1]\<close> and is not more than the one stored before it. When the
  arithmetic is also free of underflow, the factor and the alpha stored are positive. In
  exact arithmetic the factor and the alpha stored lie in \<open>(0, 1]\<close> and the alpha stored
  is not more than the one stored before it.
\<close>

theorem CS_FinalIntegration_transmittance_non_increasing:
  assumes "\<forall>j < unat (GridSizeInt_z fr).
             0 \<le> alpha (LightScattering fr (Vec3 x y (word_of_nat j)))"
    and "k < unat (GridSizeInt_z fr)"
  shows "fst (CS_FinalIntegration ops fr x y ! k) = Vec3 x y (word_of_nat k) \<and>
         stored_transmittance ops fr x y k =
           f_mul ops (if k = 0 then f_one ops else stored_transmittance ops fr x y (k - 1))
             (slice_transmittance ops fr x y k) \<and>
         (sound_rounding ops \<longrightarrow>
            0 \<le> slice_transmittance ops fr x y k \<and> slice_transmittance ops fr x y k \<le> 1 \<and>
            0 \<le> stored_transmittance ops fr x y k \<and>
            stored_transmittance ops fr x y k \<le>
              (if k = 0 then 1 else stored_transmittance ops fr x y (k - 1)) \<and>
            stored_transmittance ops fr x y k \<le> 1) \<and>
         (sound_rounding ops \<and> no_underflow ops \<longrightarrow>
            0 < slice_transmittance ops fr x y k \<and> 0 < stored_transmittance ops fr x y k) \<and>
         0 < slice_transmittance real_ops fr x y k \<and> slice_transmittance real_ops fr x y k \<le> 1 \<and>
         0 < stored_transmittance real_ops fr x y k \<and>
         stored_transmittance real_ops fr x y k \<le>
           (if k = 0 then 1 else stored_transmittance real_ops fr x y (k - 1)) \<and>
         stored_transmittance real_ops fr x y k \<le> 1"
proof -
  let ?sl = "\<lambda>k. LightScattering fr (Vec3 x y (word_of_nat k))"
  have position: "fst (CS_FinalIntegration ops fr x y ! k) = Vec3 x y (word_of_nat k)"
    unfolding CS_FinalIntegration_nth [OF assms(2)] by simp
  have product: "stored_transmittance ops' fr x y k =
           f_mul ops' (if k = 0 then f_one ops' else stored_transmittance ops' fr x y (k - 1))
             (slice_transmittance ops' fr x y k)" for ops' :: "real float_ops"
    unfolding stored_transmittance_integrated [OF assms(2)]
      previous_transmittance_integrated [OF assms(2)] alpha_integrated_Suc
      slice_transmittance_def ..
  have sigma: "0 \<le> alpha (?sl k)" and before: "\<forall>j < k. 0 \<le> alpha (?sl j)"
    using assms by simp_all
  have sound: "0 \<le> slice_transmittance ops' fr x y k \<and> slice_transmittance ops' fr x y k \<le> 1 \<and>
            0 \<le> stored_transmittance ops' fr x y k \<and>
            stored_transmittance ops' fr x y k \<le>
              (if k = 0 then 1 else stored_transmittance ops' fr x y (k - 1)) \<and>
            stored_transmittance ops' fr x y k \<le> 1"
    if s: "sound_rounding ops'" for ops'
  proof -
    have one: "f_one ops' = 1"
      using s unfolding sound_rounding_def by blast
    have steps: "\<forall>j. 0 \<le> step_from_camera ops' fr x y j"
      using step_from_camera_nonneg [OF s] by blast
    have factor: "0 \<le> slice_transmittance ops' fr x y k \<and> slice_transmittance ops' fr x y k \<le> 1"
      unfolding slice_transmittance_def
      by (rule sound_rounding_factor [OF s sigma step_from_camera_nonneg [OF s]])
    define prev where
      "prev = (if k = 0 then f_one ops' else stored_transmittance ops' fr x y (k - 1))"
    have prev: "0 \<le> prev \<and> prev \<le> 1"
      unfolding prev_def previous_transmittance_integrated [OF assms(2)]
      by (rule integrated_alpha_bounds [OF s before steps])
    have stored: "stored_transmittance ops' fr x y k =
                    f_mul ops' prev (slice_transmittance ops' fr x y k)"
      unfolding prev_def by (rule product)
    from sound_rounding_mul [OF s] prev factor
    have "0 \<le> stored_transmittance ops' fr x y k \<and> stored_transmittance ops' fr x y k \<le> prev"
      unfolding stored by blast
    moreover have "prev = (if k = 0 then 1 else stored_transmittance ops' fr x y (k - 1))"
      unfolding prev_def using one by simp
    ultimately show ?thesis
      using factor prev by auto
  qed
  have positive: "0 < slice_transmittance ops' fr x y k \<and> 0 < stored_transmittance ops' fr x y k"
    if s: "sound_rounding ops'" and u: "no_underflow ops'" for ops'
  proof -
    have "0 < slice_transmittance ops' fr x y k"
      using u unfolding slice_transmittance_def no_underflow_def by blast
    moreover have "0 < stored_transmittance ops' fr x y k"
      unfolding stored_transmittance_integrated [OF assms(2)]
      by (rule integrated_alpha_positive [OF s u])
    ultimately show ?thesis ..
  qed
  note exact = sound [OF sound_rounding_real_ops]
    positive [OF sound_rounding_real_ops no_underflow_real_ops]
  from exact have exact': "0 < slice_transmittance real_ops fr x y k \<and>
         slice_transmittance real_ops fr x y k \<le> 1 \<and>
         0 < stored_transmittance real_ops fr x y k \<and>
         stored_transmittance real_ops fr x y k \<le>
           (if k = 0 then 1 else stored_transmittance real_ops fr x y (k - 1)) \<and>
         stored_transmittance real_ops fr x y k \<le> 1"
    by blast
  have s: "sound_rounding ops \<longrightarrow>
            0 \<le> slice_transmittance ops fr x y k \<and> slice_transmittance ops fr x y k \<le> 1 \<and>
            0 \<le> stored_transmittance ops fr x y k \<and>
            stored_transmittance ops fr x y k \<le>
              (if k = 0 then 1 else stored_transmittance ops fr x y (k - 1)) \<and>
            stored_transmittance ops fr x y k \<le> 1"
    using sound by blast
  have p: "sound_rounding ops \<and> no_underflow ops \<longrightarrow>
            0 < slice_transmittance ops fr x y k \<and> 0 < stored_transmittance ops fr x y k"
    using positive by blast
  show ?thesis
    by (rule conjI [OF position conjI [OF product conjI [OF s conjI [OF p exact']]]])
qed

theorem CS_FinalIntegration_transmittance_non_increasing_witness:
  "list_all (\<lambda>j. 0 \<le> alpha (LightScattering two_slices (Vec3 0 0 (word_of_nat j))))
     [0..<unat (GridSizeInt_z two_slices)] \<and>
   Suc 0 < unat (GridSizeInt_z two_slices) \<and>
   list_all (\<lambda>j. 0 \<le> alpha (LightScattering dense_slices (Vec3 0 0 (word_of_nat j))))
     [0..<unat (GridSizeInt_z dense_slices)] \<and>
   Suc 0 < unat (GridSizeInt_z dense_slices) \<and>
   sound_rounding real_ops \<and> no_underflow real_ops \<and> sound_rounding underflow_ops \<and>
   map (\<lambda>s. alpha (snd s)) (CS_FinalIntegration real_ops two_slices 0 0) =
     [exp (- 1), exp (- 3)] \<and>
   stored_transmittance real_ops two_slices 0 0 0 = exp (- 1) \<and>
   stored_transmittance real_ops two_slices 0 0 (Suc 0) = exp (- 3) \<and>
   slice_transmittance real_ops two_slices 0 0 (Suc 0) = exp (- 2) \<and>
   stored_transmittance real_ops two_slices 0 0 (Suc 0) =
     stored_transmittance real_ops two_slices 0 0 0 *
     slice_transmittance real_ops two_slices 0 0 (Suc 0) \<and>
   0 < stored_transmittance real_ops two_slices 0 0 (Suc 0) \<and>
   stored_transmittance real_ops two_slices 0 0 (Suc 0) \<le>
     stored_transmittance real_ops two_slices 0 0 0 \<and>
   stored_transmittance real_ops two_slices 0 0 (Suc 0) \<le> 1 \<and>
   stored_transmittance underflow_ops dense_slices 0 0 (Suc 0) = 0 \<and>
   0 \<le> stored_transmittance underflow_ops dense_slices 0 0 (Suc 0) \<and>
   stored_transmittance underflow_ops dense_slices 0 0 (Suc 0) \<le>
     stored_transmittance underflow_ops dense_slices 0 0 0"
proof -
  have nonneg: "\<forall>j < unat (GridSizeInt_z two_slices).
                  0 \<le> alpha (LightScattering two_slices (Vec3 0 0 (word_of_nat j)))"
    and nonneg': "\<forall>j < unat (GridSizeInt_z dense_slices).
                  0 \<le> alpha (LightScattering dense_slices (Vec3 0 0 (word_of_nat j)))"
    by (simp_all add: two_slices_def dense_slices_def)
  have all: "list_all (\<lambda>j. 0 \<le> alpha (LightScattering two_slices (Vec3 0 0 (word_of_nat j))))
     [0..<unat (GridSizeInt_z two_slices)]"
    and all': "list_all (\<lambda>j. 0 \<le> alpha (LightScattering dense_slices (Vec3 0 0 (word_of_nat j))))
     [0..<unat (GridSizeInt_z dense_slices)]"
    by (simp_all add: two_slices_def dense_slices_def list_all_iff)
  have below: "Suc 0 < unat (GridSizeInt_z two_slices)"
    and below': "Suc 0 < unat (GridSizeInt_z dense_slices)"
    and first: "0 < unat (GridSizeInt_z two_slices)"
    by (simp_all add: two_slices_def dense_slices_def)
  note exact = CS_FinalIntegration_transmittance_non_increasing
    [OF nonneg below, of real_ops]
  note flushed = CS_FinalIntegration_transmittance_non_increasing
    [OF nonneg' below', of underflow_ops]
  have stored0: "stored_transmittance real_ops two_slices 0 0 0 = exp (- 1)"
    and stored1: "stored_transmittance real_ops two_slices 0 0 (Suc 0) = exp (- 3)"
    unfolding stored_transmittance_nth [OF below] stored_transmittance_nth [OF first]
      two_slices_transmittance by simp_all
  have factor1: "slice_transmittance real_ops two_slices 0 0 (Suc 0) = exp (- 2)"
    by (simp add: slice_transmittance_def two_slices_steps) (simp add: real_ops_def two_slices_def)
  from exact have product: "stored_transmittance real_ops two_slices 0 0 (Suc 0) =
     stored_transmittance real_ops two_slices 0 0 0 *
     slice_transmittance real_ops two_slices 0 0 (Suc 0)"
    by (simp add: real_ops_def)
  from exact have bounds: "0 < stored_transmittance real_ops two_slices 0 0 (Suc 0)"
    "stored_transmittance real_ops two_slices 0 0 (Suc 0) \<le>
     stored_transmittance real_ops two_slices 0 0 0"
    "stored_transmittance real_ops two_slices 0 0 (Suc 0) \<le> 1"
    by simp_all
  have dense1: "stored_transmittance underflow_ops dense_slices 0 0 (Suc 0) = 0"
    unfolding stored_transmittance_nth [OF below'] dense_slices_transmittance by simp
  from flushed sound_rounding_underflow_ops
  have bounds': "0 \<le> stored_transmittance underflow_ops dense_slices 0 0 (Suc 0)"
    "stored_transmittance underflow_ops dense_slices 0 0 (Suc 0) \<le>
     stored_transmittance underflow_ops dense_slices 0 0 0"
    by simp_all
  show ?thesis
    by (rule conjI [OF all conjI [OF below conjI [OF all' conjI [OF below'
          conjI [OF sound_rounding_real_ops conjI [OF no_underflow_real_ops
          conjI [OF sound_rounding_underflow_ops conjI [OF two_slices_transmittance
          conjI [OF stored0 conjI [OF stored1 conjI [OF factor1 conjI [OF product
          conjI [OF bounds(1) conjI [OF bounds(2) conjI [OF bounds(3) conjI [OF dense1
          conjI [OF bounds'(1) bounds'(2)]]]]]]]]]]]]]]]]])
qed

text \<open>
  The claim as the specification words it keeps the factor and the transmittance written
  in \<open>(0, 1]\<close>. In the column of \<open>dense_slices\<close> every slice has the extinction 1000, which
  is not negative, and the first step is 1 long: \<^verbatim>\<open>exp\<close> is taken of \<open>- 1000\<close>, which
  underflows to 0 in 32-bit floats, so the factor of the first slice is 0 and the pass
  writes the transmittance 0 for both slices.
\<close>

theorem CS_FinalIntegration_transmittance_underflows:
  "GridSizeInt_z dense_slices = 2 \<and>
   LightScattering dense_slices = (\<lambda>c. Vec4 1 0 0 1000) \<and>
   step_from_camera underflow_ops dense_slices 0 0 0 = 1 \<and>
   f_mul underflow_ops (f_neg underflow_ops 1000) 1 = - 1000 \<and>
   f_exp underflow_ops (- 1000) = 0 \<and>
   slice_transmittance underflow_ops dense_slices 0 0 0 = 0 \<and>
   map (\<lambda>s. alpha (snd s)) (CS_FinalIntegration underflow_ops dense_slices 0 0) = [0, 0]"
proof -
  have size: "GridSizeInt_z dense_slices = 2"
    and extinction: "LightScattering dense_slices = (\<lambda>c. Vec4 1 0 0 1000)"
    by (simp_all add: dense_slices_def two_slices_def)
  have product: "f_mul underflow_ops (f_neg underflow_ops 1000) 1 = - 1000"
    and underflow: "f_exp underflow_ops (- 1000) = 0"
    by (simp_all add: underflow_ops_def real_ops_def)
  have factor: "slice_transmittance underflow_ops dense_slices 0 0 0 = 0"
    by (simp add: slice_transmittance_def dense_slices_steps)
       (simp add: underflow_ops_def real_ops_def dense_slices_def two_slices_def)
  show ?thesis
    by (rule conjI [OF size conjI [OF extinction conjI [OF dense_slices_steps(1)
          conjI [OF product conjI [OF underflow conjI [OF factor dense_slices_transmittance]]]]]])
qed

end
